theory Spec2Isabelle
  imports Main "HOL-Library.Word"
begin

section \<open>The staging validator \<^verbatim>\<open>SNARL_import.py\<close>\<close>

text \<open>
  The script checks a visit folder of sensor media against a deployment CSV. This theory
  embeds its four functions (\<^verbatim>\<open>sha256sum\<close>, \<^verbatim>\<open>load_deployments\<close>, \<^verbatim>\<open>build_stub\<close>,
  \<^verbatim>\<open>main\<close>) and proves properties of them.

  What the script reads from its surroundings is an explicit argument of the model:
  \<^item> the parsed manifest (the dictionaries \<^verbatim>\<open>csv.DictReader\<close> yields, or the reason the
    file cannot be read);
  \<^item> the directory listing \<^verbatim>\<open>rglob("*")\<close> of each sub-folder, every entry with its
    bytes (or the fact that they cannot be read) and its modification time;
  \<^item> the order in which Python iterates the set \<^verbatim>\<open>ALLOWED_DIRS\<close>;
  \<^item> three library functions that are not code of the script: the one-shot SHA-256 hex
    digest of a byte string, \<^verbatim>\<open>float\<close> on a string, and the ISO rendering of a
    modification time.

  Strings are ASCII: \<^verbatim>\<open>str.upper\<close> is modelled on the letters a to z only. Writing to
  the output folder, to the report and to standard output is taken to succeed; every other
  exception the script can raise is a branch of the model.
\<close>

subsection \<open>User configuration\<close>

definition SITE_ID :: string where
  "SITE_ID = ''SNARL''"

definition VISIT_DATE :: string where
  "VISIT_DATE = ''20250610''"

definition ALLOWED_DIRS :: "string set" where
  "ALLOWED_DIRS = {''bird_01'', ''bat_01'', ''trad_01'', ''drift_01''}"

definition CSV_NAME :: string where
  "CSV_NAME = ''20250610_deployments.csv''"

definition JSON_FOLDER :: string where
  "JSON_FOLDER = ''json_meta''"

definition REPORT_NAME :: string where
  "REPORT_NAME = ''staging_report.html''"

subsection \<open>Python values, exceptions and library functions\<close>

text \<open>A CSV cell as \<^verbatim>\<open>DictReader\<close> delivers it: a string, or \<^verbatim>\<open>None\<close> for a column
  that a short row does not reach. \<^verbatim>\<open>row.get\<close> of an absent column is \<^verbatim>\<open>None\<close> too.\<close>

datatype pyval = PyStr string | PyNone

type_synonym row = "string \<rightharpoonup> pyval"

type_synonym key = "string \<times> pyval"

type_synonym index = "key \<rightharpoonup> row"

datatype exn =
    OSError
  | KeyError string
  | AttributeError
  | TypeError
  | ValueError

type_synonym byte = "8 word"

record ('f, 't) pylib =
  sha256_hex :: "byte list \<Rightarrow> string"
  float_of :: "string \<Rightarrow> 'f option"
  utc_iso :: "'t \<Rightarrow> string"

text \<open>\<^verbatim>\<open>str.upper\<close> on ASCII text.\<close>

definition upper_char :: "char \<Rightarrow> char" where
  "upper_char c =
     (case map_of (zip ''abcdefghijklmnopqrstuvwxyz'' ''ABCDEFGHIJKLMNOPQRSTUVWXYZ'') c of
        None \<Rightarrow> c
      | Some u \<Rightarrow> u)"

definition upper :: "string \<Rightarrow> string" where
  "upper s = map upper_char s"

text \<open>\<^verbatim>\<open>row[k]\<close> raises \<^verbatim>\<open>KeyError\<close> on an absent column.\<close>

definition getitem :: "row \<Rightarrow> string \<Rightarrow> exn + pyval" where
  "getitem row k = (case row k of None \<Rightarrow> Inl (KeyError k) | Some v \<Rightarrow> Inr v)"

text \<open>\<^verbatim>\<open>row.get(k)\<close> never raises.\<close>

definition get_or_none :: "row \<Rightarrow> string \<Rightarrow> pyval" where
  "get_or_none row k = (case row k of None \<Rightarrow> PyNone | Some v \<Rightarrow> v)"

text \<open>\<^verbatim>\<open>float(v)\<close>: \<^verbatim>\<open>TypeError\<close> on \<^verbatim>\<open>None\<close>, \<^verbatim>\<open>ValueError\<close> on a string that is no
  number.\<close>

definition py_float :: "('f, 't) pylib \<Rightarrow> pyval \<Rightarrow> exn + 'f" where
  "py_float lib v =
     (case v of
        PyNone \<Rightarrow> Inl TypeError
      | PyStr s \<Rightarrow> (case float_of lib s of None \<Rightarrow> Inl ValueError | Some x \<Rightarrow> Inr x))"

text \<open>Sequencing of computations that may raise.\<close>

definition bindE :: "exn + 'a \<Rightarrow> ('a \<Rightarrow> exn + 'b) \<Rightarrow> exn + 'b" where
  "bindE m f = (case m of Inl e \<Rightarrow> Inl e | Inr x \<Rightarrow> f x)"

subsection \<open>Paths\<close>

text \<open>A relative path is the list of its components. \<^verbatim>\<open>as_posix\<close> joins them with a
  slash; \<^verbatim>\<open>stem\<close> is the last component without its last suffix, where a suffix starts at
  the last dot unless that dot is the first or the last character of the name.\<close>

fun as_posix :: "string list \<Rightarrow> string" where
  "as_posix [] = ''.''"
| "as_posix [p] = p"
| "as_posix (p # q # ps) = p @ ''/'' @ as_posix (q # ps)"

definition rfind :: "char \<Rightarrow> string \<Rightarrow> nat option" where
  "rfind c s =
     (if c \<in> set s then Some (length s - 1 - length (takeWhile (\<lambda>x. x \<noteq> c) (rev s)))
      else None)"

definition stem :: "string \<Rightarrow> string" where
  "stem name =
     (case rfind (CHR ''.'') name of
        None \<Rightarrow> name
      | Some i \<Rightarrow> if 0 < i \<and> i < length name - 1 then take i name else name)"

subsection \<open>The visit folder\<close>

datatype fdata = Unreadable | Bytes "byte list"

text \<open>One path that \<^verbatim>\<open>rglob\<close> yields under a sub-folder: its components below the
  sub-folder, whether it is a regular file, its content and its modification time.\<close>

record 't entry =
  below :: "string list"
  is_file :: bool
  content :: fdata
  mtime :: 't

datatype csv_source = Csv_missing | Csv_unreadable | Csv_rows "row list"

text \<open>\<^verbatim>\<open>csv_path.exists()\<close>.\<close>

fun exists_csv :: "csv_source \<Rightarrow> bool" where
  "exists_csv Csv_missing = False"
| "exists_csv Csv_unreadable = True"
| "exists_csv (Csv_rows rows) = True"

record 't world =
  manifest :: csv_source
  dir_order :: "string list"
  rglob :: "string \<Rightarrow> 't entry list"

subsection \<open>\<^verbatim>\<open>sha256sum\<close>\<close>

text \<open>The file handle is the bytes not yet read; \<^verbatim>\<open>fh.read(block)\<close> returns the next
  \<open>block\<close> bytes (fewer at the end of the file) and the loop stops at the first empty
  chunk. The hash object is the bytes fed to it so far: \<^verbatim>\<open>hashlib\<close> documents that
  repeated \<^verbatim>\<open>update\<close> calls are equivalent to one call with the concatenation.\<close>

function read_chunks :: "nat \<Rightarrow> byte list \<Rightarrow> byte list \<Rightarrow> byte list" where
  "read_chunks block fh h =
     (if take block fh = [] then h
      else read_chunks block (drop block fh) (h @ take block fh))"
  by pat_completeness auto
termination
  by (relation "measure (\<lambda>(block, fh, h). length fh)") auto

declare read_chunks.simps [simp del]

definition sha256sum :: "('f, 't) pylib \<Rightarrow> 't entry \<Rightarrow> nat \<Rightarrow> exn + string" where
  "sha256sum lib fp block =
     (case content fp of
        Unreadable \<Rightarrow> Inl OSError
      | Bytes bs \<Rightarrow> Inr (sha256_hex lib (read_chunks block bs [])))"

subsection \<open>\<^verbatim>\<open>load_deployments\<close>\<close>

definition row_key :: "row \<Rightarrow> exn + key" where
  "row_key row =
     bindE (getitem row ''device_serial'') (\<lambda>serial.
       case serial of
         PyNone \<Rightarrow> Inl AttributeError
       | PyStr s \<Rightarrow> bindE (getitem row ''deployment_id'') (\<lambda>dep. Inr (upper s, dep)))"

fun load_rows :: "row list \<Rightarrow> index \<Rightarrow> exn + index" where
  "load_rows [] look = Inr look"
| "load_rows (row # rows) look =
     (case row_key row of
        Inl e \<Rightarrow> Inl e
      | Inr key \<Rightarrow> load_rows rows (look(key \<mapsto> row)))"

definition load_deployments :: "csv_source \<Rightarrow> exn + index" where
  "load_deployments src =
     (case src of
        Csv_missing \<Rightarrow> Inl OSError
      | Csv_unreadable \<Rightarrow> Inl OSError
      | Csv_rows rows \<Rightarrow> load_rows rows Map.empty)"

subsection \<open>\<^verbatim>\<open>build_stub\<close>\<close>

record 'f stub =
  site_id :: string
  deployment_id :: pyval
  device_serial :: pyval
  sensor_type :: pyval
  latitude :: 'f
  longitude :: 'f
  start_utc :: pyval
  end_utc :: pyval
  timestamp_file :: string
  checksum_sha256 :: string
  file_relpath :: string
  import_version :: string

definition build_stub ::
  "('f, 't) pylib \<Rightarrow> row \<Rightarrow> 't entry \<Rightarrow> string list \<Rightarrow> string \<Rightarrow> exn + 'f stub" where
  "build_stub lib row fp relpath checksum =
     (let ts_file = utc_iso lib (mtime fp) @ ''Z'' in
      bindE (getitem row ''deployment_id'') (\<lambda>dep.
      bindE (getitem row ''device_serial'') (\<lambda>ser.
      bindE (getitem row ''sensor_type'') (\<lambda>sen.
      bindE (bindE (getitem row ''latitude'') (py_float lib)) (\<lambda>lat.
      bindE (bindE (getitem row ''longitude'') (py_float lib)) (\<lambda>lon.
        Inr \<lparr> site_id = SITE_ID,
              deployment_id = dep,
              device_serial = ser,
              sensor_type = sen,
              latitude = lat,
              longitude = lon,
              start_utc = get_or_none row ''start_utc'',
              end_utc = get_or_none row ''end_utc'',
              timestamp_file = ts_file,
              checksum_sha256 = checksum,
              file_relpath = as_posix relpath,
              import_version = ''0.1'' \<rparr>))))))"

subsection \<open>\<^verbatim>\<open>main\<close>\<close>

text \<open>The local variables of \<^verbatim>\<open>main\<close> that the loop updates, and the calls of
  \<^verbatim>\<open>write_text\<close> on side-car paths in the order they happen: the file name inside
  \<^verbatim>\<open>json_meta\<close>, and the stub whose JSON rendering is written.\<close>

record 'f run_state =
  total_files :: nat
  unmatched_files :: "string list"
  written_sidecars :: nat
  sidecar_writes :: "(string \<times> 'f stub) list"

definition init_state :: "'f run_state" where
  "init_state =
     \<lparr> total_files = 0, unmatched_files = [], written_sidecars = 0, sidecar_writes = [] \<rparr>"

text \<open>The files in \<^verbatim>\<open>json_meta\<close> that the writes of a run leave behind: a later write to
  a name replaces the earlier one. Files that were in the folder before the run are not
  part of the model.\<close>

definition json_meta :: "'f run_state \<Rightarrow> (string \<rightharpoonup> 'f stub)" where
  "json_meta st = map_of (rev (sidecar_writes st))"

text \<open>The body of the inner loop for one path \<open>fp\<close> under sub-folder \<open>sub\<close>. An exception
  leaves the function with the state reached when it was raised.\<close>

definition loop_body ::
  "('f, 't) pylib \<Rightarrow> index \<Rightarrow> string \<Rightarrow> 't entry \<Rightarrow> 'f run_state
     \<Rightarrow> (exn \<times> 'f run_state) + 'f run_state" where
  "loop_body lib deployments sub fp st =
     (if \<not> is_file fp then Inr st
      else
        let st1 = st\<lparr>total_files := total_files st + 1\<rparr>;
            rel = sub # below fp;
            serial_guess = upper sub;
            dep_id_guess = SITE_ID @ ''_'' @ serial_guess @ ''_'' @ VISIT_DATE;
            key = (serial_guess, PyStr dep_id_guess)
        in case deployments key of
             None \<Rightarrow> Inr (st1\<lparr>unmatched_files := unmatched_files st1 @ [as_posix rel]\<rparr>)
           | Some row \<Rightarrow>
               (case sha256sum lib fp 131072 of
                  Inl e \<Rightarrow> Inl (e, st1)
                | Inr chksum \<Rightarrow>
                    (case build_stub lib row fp rel chksum of
                       Inl e \<Rightarrow> Inl (e, st1)
                     | Inr stub \<Rightarrow>
                         Inr (st1\<lparr>sidecar_writes :=
                                    sidecar_writes st1 @ [(stem (last rel) @ ''.json'', stub)],
                                  written_sidecars := written_sidecars st1 + 1\<rparr>))))"

fun scan_dir ::
  "('f, 't) pylib \<Rightarrow> index \<Rightarrow> string \<Rightarrow> 't entry list \<Rightarrow> 'f run_state
     \<Rightarrow> (exn \<times> 'f run_state) + 'f run_state" where
  "scan_dir lib deployments sub [] st = Inr st"
| "scan_dir lib deployments sub (fp # fps) st =
     (case loop_body lib deployments sub fp st of
        Inl err \<Rightarrow> Inl err
      | Inr st' \<Rightarrow> scan_dir lib deployments sub fps st')"

fun scan_dirs ::
  "('f, 't) pylib \<Rightarrow> index \<Rightarrow> (string \<Rightarrow> 't entry list) \<Rightarrow> string list \<Rightarrow> 'f run_state
     \<Rightarrow> (exn \<times> 'f run_state) + 'f run_state" where
  "scan_dirs lib deployments tree [] st = Inr st"
| "scan_dirs lib deployments tree (sub # subs) st =
     (case scan_dir lib deployments sub (tree sub) st of
        Inl err \<Rightarrow> Inl err
      | Inr st' \<Rightarrow> scan_dirs lib deployments tree subs st')"

text \<open>What the HTML report shows: the two counters and, when the run is not good, the number
  of unmatched paths with the first ten of them.\<close>

datatype verdict = All_passed | Issues nat "string list"

record report =
  rep_total :: nat
  rep_written :: nat
  rep_verdict :: verdict

definition make_report :: "'f run_state \<Rightarrow> report" where
  "make_report st =
     (let good = (unmatched_files st = []) in
      \<lparr> rep_total = total_files st,
        rep_written = written_sidecars st,
        rep_verdict =
          (if good then All_passed
           else Issues (length (unmatched_files st)) (take 10 (unmatched_files st))) \<rparr>)"

text \<open>How the process ends: \<^verbatim>\<open>main\<close> returns (exit status 0), \<^verbatim>\<open>sys.exit\<close> is called with
  a message (exit status 1), or an exception nobody catches ends it (exit status 1).\<close>

datatype exit = Returned | SysExit string | Uncaught exn

fun failure :: "exit \<Rightarrow> bool" where
  "failure Returned = False"
| "failure (SysExit msg) = True"
| "failure (Uncaught e) = True"

record 'f run_result =
  exit_of :: exit
  final :: "'f run_state"
  report_of :: "report option"

definition main :: "('f, 't) pylib \<Rightarrow> 't world \<Rightarrow> 'f run_result" where
  "main lib w =
     (if \<not> exists_csv (manifest w) then
        \<lparr> exit_of = SysExit ''ERROR  Deployment CSV missing'',
          final = init_state, report_of = None \<rparr>
      else
        case load_deployments (manifest w) of
          Inl e \<Rightarrow> \<lparr> exit_of = Uncaught e, final = init_state, report_of = None \<rparr>
        | Inr deployments \<Rightarrow>
            (case scan_dirs lib deployments (rglob w) (dir_order w) init_state of
               Inl (e, st) \<Rightarrow> \<lparr> exit_of = Uncaught e, final = st, report_of = None \<rparr>
             | Inr st \<Rightarrow>
                 (let good = (unmatched_files st = []) in
                  \<lparr> exit_of =
                      (if good then Returned
                       else SysExit ''Fix blocking issues (see report) before promotion.''),
                    final = st,
                    report_of = Some (make_report st) \<rparr>)))"

subsection \<open>Notions used to state the properties\<close>

text \<open>The composite keys as the specification words them. A manifest row with serial
  \<open>s\<close> and deployment id \<open>d\<close> is filed under the serial in upper case and the
  deployment id as it stands; a file is looked up under the name of its sub-folder in upper
  case and the deployment id \<^verbatim>\<open>{site}_{serial}_{visit}\<close>.\<close>

definition manifest_key :: "string \<Rightarrow> pyval \<Rightarrow> key" where
  "manifest_key s d = (upper s, d)"

definition file_key :: "string \<Rightarrow> key" where
  "file_key sub = (upper sub, PyStr (SITE_ID @ ''_'' @ upper sub @ ''_'' @ VISIT_DATE))"

text \<open>The outer loop of \<^verbatim>\<open>main\<close> runs over the set \<^verbatim>\<open>ALLOWED_DIRS\<close>, in an order Python
  does not fix: \<open>dir_order\<close> is such an order when it lists every allowed sub-folder
  once. The theorems below hold for every list of sub-folders.\<close>

definition allowed_order :: "'t world \<Rightarrow> bool" where
  "allowed_order w = (distinct (dir_order w) \<and> set (dir_order w) = ALLOWED_DIRS)"

text \<open>Everything the enumeration visits, in order, each path with its sub-folder; and the
  regular files among them, the discovered files.\<close>

definition entries :: "'t world \<Rightarrow> (string \<times> 't entry) list" where
  "entries w = concat (map (\<lambda>sub. map (Pair sub) (rglob w sub)) (dir_order w))"

definition regular :: "string \<times> 't entry \<Rightarrow> bool" where
  "regular p = is_file (snd p)"

definition files_of :: "'t world \<Rightarrow> (string \<times> 't entry) list" where
  "files_of w = filter regular (entries w)"

definition matched :: "index \<Rightarrow> string \<times> 't entry \<Rightarrow> bool" where
  "matched look p = (look (file_key (fst p)) \<noteq> None)"

definition rel_of :: "string \<times> 't entry \<Rightarrow> string" where
  "rel_of p = as_posix (fst p # below (snd p))"

definition sidecar_name :: "string \<times> 't entry \<Rightarrow> string" where
  "sidecar_name p = stem (last (fst p # below (snd p))) @ ''.json''"

text \<open>Steps 2 and 4 for a file whose row was found: the checksum, then the stub.\<close>

definition describe ::
  "('f, 't) pylib \<Rightarrow> row \<Rightarrow> string \<Rightarrow> 't entry \<Rightarrow> exn + 'f stub" where
  "describe lib row sub fp =
     bindE (sha256sum lib fp 131072) (build_stub lib row fp (sub # below fp))"

text \<open>A discovered file is faulty when its row is found and the checksum or the stub
  raises.\<close>

definition faulty :: "('f, 't) pylib \<Rightarrow> index \<Rightarrow> string \<times> 't entry \<Rightarrow> bool" where
  "faulty lib look p =
     (is_file (snd p) \<and>
      (case look (file_key (fst p)) of
         None \<Rightarrow> False
       | Some row \<Rightarrow>
           (case describe lib row (fst p) (snd p) of Inl e \<Rightarrow> True | Inr s \<Rightarrow> False)))"

text \<open>A latitude or longitude cell that holds a string \<^verbatim>\<open>float\<close> rejects.\<close>

definition non_numeric :: "('f, 't) pylib \<Rightarrow> row \<Rightarrow> string \<Rightarrow> bool" where
  "non_numeric lib row k =
     (case row k of Some (PyStr s) \<Rightarrow> float_of lib s = None | _ \<Rightarrow> False)"

text \<open>The two ways the loop body ends without an exception for a regular file.\<close>

definition note_unmatched :: "string \<Rightarrow> 't entry \<Rightarrow> 'f run_state \<Rightarrow> 'f run_state" where
  "note_unmatched sub fp st =
     st\<lparr>total_files := total_files st + 1,
        unmatched_files := unmatched_files st @ [as_posix (sub # below fp)]\<rparr>"

definition note_written ::
  "string \<Rightarrow> 't entry \<Rightarrow> 'f stub \<Rightarrow> 'f run_state \<Rightarrow> 'f run_state" where
  "note_written sub fp stub st =
     st\<lparr>total_files := total_files st + 1,
        sidecar_writes :=
          sidecar_writes st @ [(stem (last (sub # below fp)) @ ''.json'', stub)],
        written_sidecars := written_sidecars st + 1\<rparr>"

text \<open>The two nested loops as one pass over the entries.\<close>

fun run_files ::
  "('f, 't) pylib \<Rightarrow> index \<Rightarrow> (string \<times> 't entry) list \<Rightarrow> 'f run_state
     \<Rightarrow> (exn \<times> 'f run_state) + 'f run_state" where
  "run_files lib look [] st = Inr st"
| "run_files lib look (p # ps) st =
     (case loop_body lib look (fst p) (snd p) st of
        Inl err \<Rightarrow> Inl err
      | Inr st' \<Rightarrow> run_files lib look ps st')"

text \<open>The unmatched count a report shows.\<close>

definition rep_unmatched :: "report \<Rightarrow> nat" where
  "rep_unmatched r = (case rep_verdict r of All_passed \<Rightarrow> 0 | Issues n preview \<Rightarrow> n)"

text \<open>What a pass over the entries \<open>ps\<close> that raises nothing does to the state: every
  regular file is counted, the unmatched ones are appended to the list of unmatched paths,
  and each matched one gets one write, to the side-car named after its stem, of a stub that
  carries its relative path.\<close>

definition effect ::
  "index \<Rightarrow> (string \<times> 't entry) list \<Rightarrow> 'f run_state \<Rightarrow> 'f run_state \<Rightarrow> bool" where
  "effect look ps st st' =
     (total_files st' = total_files st + length (filter regular ps) \<and>
      unmatched_files st' =
        unmatched_files st @ map rel_of (filter (\<lambda>p. regular p \<and> \<not> matched look p) ps) \<and>
      written_sidecars st' =
        written_sidecars st + length (filter (\<lambda>p. regular p \<and> matched look p) ps) \<and>
      map fst (sidecar_writes st') =
        map fst (sidecar_writes st) @
        map sidecar_name (filter (\<lambda>p. regular p \<and> matched look p) ps) \<and>
      map (\<lambda>x. file_relpath (snd x)) (sidecar_writes st') =
        map (\<lambda>x. file_relpath (snd x)) (sidecar_writes st) @
        map rel_of (filter (\<lambda>p. regular p \<and> matched look p) ps))"

subsection \<open>A sample visit\<close>

text \<open>Concrete inputs on which the model is evaluated. The library instance stands in for
  the three library functions: a float is kept as the literal that denotes it, and only
  unsigned decimal integers are accepted (Python accepts them, and rejects \<^verbatim>\<open>abc\<close>); a
  modification time is given by its ISO text; the digest is the byte string read as
  characters. The theorems below hold for every instance.\<close>

definition sample_lib :: "(string, string) pylib" where
  "sample_lib =
     \<lparr> sha256_hex = (\<lambda>bs. map (\<lambda>b. char_of (unat b)) bs),
       float_of = (\<lambda>s. if s \<noteq> [] \<and> set s \<subseteq> set ''0123456789'' then Some s else None),
       utc_iso = (\<lambda>t. t) \<rparr>"

text \<open>A manifest row for the recorder \<^verbatim>\<open>bird_01\<close> with the given deployment id, sensor
  type and latitude.\<close>

definition bird_row :: "string \<Rightarrow> string \<Rightarrow> string \<Rightarrow> row" where
  "bird_row dep sensor lat =
     [''device_serial'' \<mapsto> PyStr ''bird_01'',
      ''deployment_id'' \<mapsto> PyStr dep,
      ''sensor_type'' \<mapsto> PyStr sensor,
      ''latitude'' \<mapsto> PyStr lat,
      ''longitude'' \<mapsto> PyStr ''118'']"

definition media :: "string \<Rightarrow> fdata \<Rightarrow> string entry" where
  "media name d =
     \<lparr> below = [name], is_file = True, content = d, mtime = ''2025-06-10T12:00:00'' \<rparr>"

text \<open>A visit folder with the given manifest rows and the given listings of \<^verbatim>\<open>bird_01\<close>
  and \<^verbatim>\<open>bat_01\<close>; the other two sub-folders are empty.\<close>

definition visit :: "row list \<Rightarrow> string entry list \<Rightarrow> string entry list \<Rightarrow> string world" where
  "visit rows birds bats =
     \<lparr> manifest = Csv_rows rows,
       dir_order = [''bird_01'', ''bat_01'', ''trad_01'', ''drift_01''],
       rglob = (\<lambda>sub. if sub = ''bird_01'' then birds else if sub = ''bat_01'' then bats else []) \<rparr>"

definition good_row :: row where
  "good_row = bird_row ''SNARL_BIRD_01_20250610'' ''audio'' ''37''"

definition good_key :: key where
  "good_key = (''BIRD_01'', PyStr ''SNARL_BIRD_01_20250610'')"

definition good_index :: index where
  "good_index = [good_key \<mapsto> good_row]"

text \<open>No manifest at all; one recording of the bird recorder; the same with one more of a
  bat recorder that the manifest does not list.\<close>

definition no_manifest_visit :: "string world" where
  "no_manifest_visit =
     \<lparr> manifest = Csv_missing,
       dir_order = [''bird_01'', ''bat_01'', ''trad_01'', ''drift_01''],
       rglob = (\<lambda>sub. []) \<rparr>"

definition plain_visit :: "string world" where
  "plain_visit = visit [good_row] [media ''a.wav'' (Bytes [1, 2, 3])] []"

definition mixed_visit :: "string world" where
  "mixed_visit =
     visit [good_row] [media ''a.wav'' (Bytes [1, 2, 3])] [media ''x.wav'' (Bytes [7])]"

text \<open>Two files of the bird recorder with the same stem.\<close>

definition twin_visit :: "string world" where
  "twin_visit =
     visit [good_row] [media ''a.wav'' (Bytes [1, 2, 3]), media ''a.jpg'' (Bytes [4])] []"

text \<open>Files of the bird recorder that cannot be read: the only one, the second of two, the
  first of two.\<close>

definition unreadable_visit :: "string world" where
  "unreadable_visit = visit [good_row] [media ''a.wav'' Unreadable] []"

definition unreadable_second_visit :: "string world" where
  "unreadable_second_visit =
     visit [good_row] [media ''a.wav'' (Bytes [1, 2, 3]), media ''b.wav'' Unreadable] []"

definition unreadable_first_visit :: "string world" where
  "unreadable_first_visit =
     visit [good_row] [media ''a.wav'' Unreadable, media ''b.wav'' (Bytes [1, 2, 3])] []"

text \<open>A manifest whose only row has the latitude \<^verbatim>\<open>abc\<close>.\<close>

definition bad_row :: row where
  "bad_row = bird_row ''SNARL_BIRD_01_20250610'' ''audio'' ''abc''"

definition bad_index :: index where
  "bad_index = [good_key \<mapsto> bad_row]"

definition bad_latitude_visit :: "string world" where
  "bad_latitude_visit = visit [bad_row] [media ''a.wav'' (Bytes [1, 2, 3])] []"

section \<open>Auxiliary lemmas\<close>

subsection \<open>Reading in chunks\<close>

lemma read_chunks_all: "0 < block \<Longrightarrow> read_chunks block fh h = h @ fh"
proof (induction block fh h rule: read_chunks.induct)
  case (1 block fh h)
  show ?case
  proof (cases "take block fh = []")
    case True
    with "1.prems" have "fh = []" by simp
    with True show ?thesis by (simp add: read_chunks.simps)
  next
    case False
    have "read_chunks block fh h = read_chunks block (drop block fh) (h @ take block fh)"
      using False by (subst read_chunks.simps) simp
    also have "\<dots> = (h @ take block fh) @ drop block fh"
      using "1.IH" [OF False "1.prems"] .
    finally show ?thesis by simp
  qed
qed

subsection \<open>The loop body and the two loops\<close>

lemma loop_body_skip: "\<not> is_file fp \<Longrightarrow> loop_body lib look sub fp st = Inr st"
  by (simp add: loop_body_def)

lemma loop_body_unmatched:
  "is_file fp \<Longrightarrow> look (file_key sub) = None \<Longrightarrow>
   loop_body lib look sub fp st = Inr (note_unmatched sub fp st)"
  by (simp add: loop_body_def file_key_def note_unmatched_def Let_def)

lemma loop_body_matched:
  "is_file fp \<Longrightarrow> look (file_key sub) = Some row \<Longrightarrow>
   loop_body lib look sub fp st =
     (case describe lib row sub fp of
        Inl e \<Rightarrow> Inl (e, st\<lparr>total_files := total_files st + 1\<rparr>)
      | Inr stub \<Rightarrow> Inr (note_written sub fp stub st))"
  by (simp add: loop_body_def file_key_def note_written_def describe_def bindE_def Let_def
      split: sum.splits)

lemma scan_dir_run:
  "scan_dir lib look sub fps st = run_files lib look (map (Pair sub) fps) st"
  by (induction fps arbitrary: st) (simp_all split: sum.splits)

lemma run_files_append:
  "run_files lib look (ps @ qs) st =
     (case run_files lib look ps st of
        Inl err \<Rightarrow> Inl err
      | Inr st' \<Rightarrow> run_files lib look qs st')"
  by (induction ps arbitrary: st) (simp_all split: sum.splits)

lemma scan_dirs_run:
  "scan_dirs lib look tree subs st =
     run_files lib look (concat (map (\<lambda>sub. map (Pair sub) (tree sub)) subs)) st"
  by (induction subs arbitrary: st) (simp_all add: scan_dir_run run_files_append split: sum.splits)

lemma effect_Nil: "effect look [] st st"
  by (simp add: effect_def)

lemma effect_trans:
  "effect look ps st st1 \<Longrightarrow> effect look qs st1 st2 \<Longrightarrow> effect look (ps @ qs) st st2"
  by (simp add: effect_def)

lemma describe_relpath:
  "describe lib row sub fp = Inr stub \<Longrightarrow> file_relpath stub = as_posix (sub # below fp)"
  by (auto simp: describe_def build_stub_def bindE_def Let_def split: sum.splits)

lemma loop_body_effect:
  assumes "\<not> faulty lib look p"
  shows "\<exists>st'. loop_body lib look (fst p) (snd p) st = Inr st' \<and> effect look [p] st st'"
proof (cases "is_file (snd p)")
  case False
  then show ?thesis
    by (simp add: loop_body_skip effect_def regular_def)
next
  case True
  show ?thesis
  proof (cases "look (file_key (fst p))")
    case None
    with True show ?thesis
      by (simp add: loop_body_unmatched effect_def regular_def matched_def rel_of_def
          note_unmatched_def)
  next
    case (Some row)
    with True assms obtain stub where d: "describe lib row (fst p) (snd p) = Inr stub"
      by (auto simp: faulty_def split: sum.splits)
    from describe_relpath [OF d] True Some d show ?thesis
      by (simp add: loop_body_matched effect_def regular_def matched_def rel_of_def
          sidecar_name_def note_written_def)
  qed
qed

lemma run_files_ok:
  "\<forall>p\<in>set ps. \<not> faulty lib look p \<Longrightarrow>
   \<exists>st'. run_files lib look ps st = Inr st' \<and> effect look ps st st'"
proof (induction ps arbitrary: st)
  case Nil
  show ?case by (simp add: effect_Nil)
next
  case (Cons p ps)
  from Cons.prems have "\<not> faulty lib look p" by simp
  from loop_body_effect [OF this] obtain st1 where
    b: "loop_body lib look (fst p) (snd p) st = Inr st1" and e1: "effect look [p] st st1"
    by blast
  from Cons.prems have "\<forall>q\<in>set ps. \<not> faulty lib look q" by simp
  from Cons.IH [OF this] obtain st2 where
    r: "run_files lib look ps st1 = Inr st2" and e2: "effect look ps st1 st2"
    by blast
  from effect_trans [OF e1 e2] have "effect look (p # ps) st st2" by simp
  with b r show ?case by simp
qed

lemma loop_body_faulty:
  assumes "faulty lib look p"
  shows "\<exists>e. loop_body lib look (fst p) (snd p) st =
              Inl (e, st\<lparr>total_files := total_files st + 1\<rparr>)"
proof -
  from assms obtain row e where "is_file (snd p)" "look (file_key (fst p)) = Some row"
    "describe lib row (fst p) (snd p) = Inl e"
    by (auto simp: faulty_def split: option.splits sum.splits)
  then show ?thesis by (simp add: loop_body_matched)
qed

lemma run_files_faulty:
  "p \<in> set ps \<Longrightarrow> faulty lib look p \<Longrightarrow> \<exists>e st'. run_files lib look ps st = Inl (e, st')"
proof (induction ps arbitrary: st)
  case Nil
  then show ?case by simp
next
  case (Cons q ps)
  show ?case
  proof (cases "loop_body lib look (fst q) (snd q) st")
    case (Inl err)
    then show ?thesis by (cases err) simp
  next
    case (Inr st1)
    with loop_body_faulty [of lib look q st] have "\<not> faulty lib look q" by auto
    with Cons.prems have "p \<in> set ps" by auto
    from Cons.IH [OF this Cons.prems(2)] Inr show ?thesis by simp
  qed
qed

lemma run_files_first_fault:
  assumes "\<forall>q\<in>set pre. \<not> faulty lib look q"
    and "is_file (snd p)" and "look (file_key (fst p)) = Some row"
    and "describe lib row (fst p) (snd p) = Inl e"
  shows "\<exists>st1. run_files lib look pre st = Inr st1 \<and> effect look pre st st1 \<and>
           run_files lib look (pre @ p # post) st =
             Inl (e, st1\<lparr>total_files := total_files st1 + 1\<rparr>)"
proof -
  from run_files_ok [OF assms(1)] obtain st1 where
    r: "run_files lib look pre st = Inr st1" and e: "effect look pre st st1"
    by blast
  from assms(2-4) have "loop_body lib look (fst p) (snd p) st1 =
      Inl (e, st1\<lparr>total_files := total_files st1 + 1\<rparr>)"
    by (simp add: loop_body_matched)
  with r e show ?thesis by (simp add: run_files_append)
qed

lemma main_loaded:
  assumes "load_deployments (manifest w) = Inr look"
  shows "main lib w =
     (case run_files lib look (entries w) init_state of
        Inl (e, st) \<Rightarrow> \<lparr> exit_of = Uncaught e, final = st, report_of = None \<rparr>
      | Inr st \<Rightarrow>
          \<lparr> exit_of =
              (if unmatched_files st = [] then Returned
               else SysExit ''Fix blocking issues (see report) before promotion.''),
            final = st,
            report_of = Some (make_report st) \<rparr>)"
proof -
  from assms have "exists_csv (manifest w)"
    by (cases "manifest w") (auto simp: load_deployments_def)
  with assms show ?thesis
    by (simp add: main_def scan_dirs_run entries_def Let_def split: sum.splits)
qed

subsection \<open>Loading the manifest\<close>

lemma row_key_Inr:
  "row_key row = Inr k \<longleftrightarrow>
     (\<exists>s d. row ''device_serial'' = Some (PyStr s) \<and> row ''deployment_id'' = Some d \<and>
            k = manifest_key s d)"
  by (auto simp: row_key_def getitem_def bindE_def manifest_key_def
      split: option.splits pyval.splits)

lemma load_rows_ok:
  "\<forall>r\<in>set rows. \<exists>k. row_key r = Inr k \<Longrightarrow> \<exists>look'. load_rows rows look = Inr look'"
  by (induction rows arbitrary: look) auto

lemma load_rows_keys:
  "load_rows rows look = Inr look' \<Longrightarrow> \<forall>r\<in>set rows. \<exists>k. row_key r = Inr k"
  by (induction rows arbitrary: look) (auto split: sum.splits)

lemma load_rows_dom:
  "load_rows rows look = Inr look' \<Longrightarrow>
   dom look' = dom look \<union> {k. \<exists>r\<in>set rows. row_key r = Inr k}"
proof (induction rows arbitrary: look)
  case Nil
  then show ?case by simp
next
  case (Cons r rows)
  let ?K = "{k. \<exists>r\<in>set rows. row_key r = Inr k}"
  from Cons.prems obtain k where k: "row_key r = Inr k"
    and l: "load_rows rows (look(k \<mapsto> r)) = Inr look'"
    by (auto split: sum.splits)
  have "dom look' = dom (look(k \<mapsto> r)) \<union> ?K"
    by (rule Cons.IH [OF l])
  also have "dom (look(k \<mapsto> r)) = insert k (dom look)"
    by simp
  finally have "dom look' = insert k (dom look) \<union> ?K" .
  moreover have "{k'. \<exists>r'\<in>set (r # rows). row_key r' = Inr k'} = insert k ?K"
    using k by auto
  ultimately show ?case by simp
qed

lemma load_rows_other:
  "load_rows rows look = Inr look' \<Longrightarrow> \<forall>r\<in>set rows. row_key r \<noteq> Inr k \<Longrightarrow>
   look' k = look k"
proof (induction rows arbitrary: look)
  case Nil
  then show ?case by simp
next
  case (Cons r rows)
  from Cons.prems(1) obtain k' where k': "row_key r = Inr k'"
    and l: "load_rows rows (look(k' \<mapsto> r)) = Inr look'"
    by (auto split: sum.splits)
  from Cons.prems(2) k' have "k' \<noteq> k" by auto
  moreover from Cons.prems(2) have "\<forall>r\<in>set rows. row_key r \<noteq> Inr k" by simp
  ultimately show ?case using Cons.IH [OF l] by simp
qed

lemma load_rows_last:
  "load_rows (pre @ r # post) look = Inr look' \<Longrightarrow> row_key r = Inr k \<Longrightarrow>
   \<forall>r'\<in>set post. row_key r' \<noteq> Inr k \<Longrightarrow> look' k = Some r"
proof (induction pre arbitrary: look)
  case Nil
  from Nil.prems(1,2) have "load_rows post (look(k \<mapsto> r)) = Inr look'" by simp
  from load_rows_other [OF this Nil.prems(3)] show ?case by simp
next
  case (Cons q pre)
  from Cons.prems(1) obtain k' where
    "load_rows (pre @ r # post) (look(k' \<mapsto> q)) = Inr look'"
    by (auto split: sum.splits)
  from Cons.IH [OF this Cons.prems(2,3)] show ?case .
qed

subsection \<open>Runs of the loops\<close>

lemma loop_body_unmatched_iff:
  assumes "is_file fp"
  shows "(loop_body lib look sub fp st = Inr (note_unmatched sub fp st)) =
         (look (file_key sub) = None)"
proof (cases "look (file_key sub)")
  case None
  with assms show ?thesis by (simp add: loop_body_unmatched)
next
  case (Some row)
  have "note_written sub fp stub st \<noteq> note_unmatched sub fp st" for stub
  proof
    assume "note_written sub fp stub st = note_unmatched sub fp st"
    then have "unmatched_files (note_written sub fp stub st) =
        unmatched_files (note_unmatched sub fp st)"
      by simp
    then show False by (simp add: note_written_def note_unmatched_def)
  qed
  with assms Some show ?thesis
    by (simp add: loop_body_matched split: sum.splits)
qed

lemma load_deployments_rows:
  "load_deployments (Csv_rows rows) = Inr look \<longleftrightarrow> load_rows rows Map.empty = Inr look"
  by (simp add: load_deployments_def)

lemma run_files_Inl_faulty:
  assumes "run_files lib look ps st = Inl err"
  shows "\<exists>p\<in>set ps. faulty lib look p"
proof (rule ccontr)
  assume "\<not> (\<exists>p\<in>set ps. faulty lib look p)"
  then have "\<forall>p\<in>set ps. \<not> faulty lib look p" by simp
  from run_files_ok [OF this, of st] assms show False by auto
qed

lemma run_files_Inr_effect:
  assumes "run_files lib look ps st = Inr st'"
  shows "effect look ps st st'"
proof -
  have "\<forall>p\<in>set ps. \<not> faulty lib look p"
  proof
    fix p assume "p \<in> set ps"
    show "\<not> faulty lib look p"
    proof
      assume "faulty lib look p"
      from run_files_faulty [OF \<open>p \<in> set ps\<close> this, of st] assms show False by auto
    qed
  qed
  from run_files_ok [OF this, of st] assms show ?thesis by auto
qed

lemma filter_files_of:
  "filter Q (files_of w) = filter (\<lambda>p. regular p \<and> Q p) (entries w)"
  by (simp add: files_of_def)

lemma main_not_loaded:
  assumes "load_deployments (manifest w) = Inl e"
  shows "failure (exit_of (main lib w)) \<and> final (main lib w) = init_state \<and>
         report_of (main lib w) = None"
  using assms by (simp add: main_def)

lemma main_completed:
  assumes "load_deployments (manifest w) = Inr look"
    and "\<forall>e. exit_of (main lib w) \<noteq> Uncaught e"
  shows "effect look (entries w) init_state (final (main lib w)) \<and>
         report_of (main lib w) = Some (make_report (final (main lib w))) \<and>
         exit_of (main lib w) =
           (if unmatched_files (final (main lib w)) = [] then Returned
            else SysExit ''Fix blocking issues (see report) before promotion.'')"
proof (cases "run_files lib look (entries w) init_state")
  case (Inl err)
  with assms show ?thesis
    by (cases err) (simp add: main_loaded)
next
  case (Inr st)
  from run_files_Inr_effect [OF Inr] Inr assms(1) show ?thesis
    by (simp add: main_loaded)
qed

lemma effect_init:
  assumes "effect look (entries w) init_state st"
  shows "total_files st = length (files_of w)"
    and "unmatched_files st = map rel_of (filter (\<lambda>p. \<not> matched look p) (files_of w))"
    and "written_sidecars st = length (filter (matched look) (files_of w))"
    and "map fst (sidecar_writes st) = map sidecar_name (filter (matched look) (files_of w))"
    and "map (\<lambda>x. file_relpath (snd x)) (sidecar_writes st) =
           map rel_of (filter (matched look) (files_of w))"
  using assms by (simp_all add: effect_def init_state_def filter_files_of files_of_def)

lemma main_report:
  assumes "report_of (main lib w) = Some r"
  shows "\<exists>look. load_deployments (manifest w) = Inr look \<and>
           effect look (entries w) init_state (final (main lib w)) \<and>
           r = make_report (final (main lib w))"
proof (cases "load_deployments (manifest w)")
  case (Inl e)
  from main_not_loaded [OF Inl, of lib] assms show ?thesis by simp
next
  case (Inr look)
  have "\<forall>e. exit_of (main lib w) \<noteq> Uncaught e"
  proof (cases "run_files lib look (entries w) init_state")
    case (Inl err)
    with Inr assms show ?thesis by (cases err) (simp add: main_loaded)
  next
    case r: (Inr st)
    with Inr show ?thesis by (simp add: main_loaded)
  qed
  from main_completed [OF Inr this] assms Inr show ?thesis by simp
qed

lemma main_faulty:
  assumes "load_deployments (manifest w) = Inr look"
    and "p \<in> set (files_of w)" and "faulty lib look p"
  shows "(\<exists>e. exit_of (main lib w) = Uncaught e) \<and> report_of (main lib w) = None"
proof -
  from assms(2) have "p \<in> set (entries w)" by (simp add: files_of_def)
  from run_files_faulty [OF this assms(3), of init_state] obtain e st where
    "run_files lib look (entries w) init_state = Inl (e, st)" by blast
  with assms(1) show ?thesis by (simp add: main_loaded)
qed

lemma main_no_fault:
  assumes "load_deployments (manifest w) = Inr look"
    and "\<forall>p\<in>set (files_of w). \<not> faulty lib look p"
  shows "\<forall>e. exit_of (main lib w) \<noteq> Uncaught e"
proof -
  have "\<forall>p\<in>set (entries w). \<not> faulty lib look p"
  proof
    fix p assume p: "p \<in> set (entries w)"
    show "\<not> faulty lib look p"
    proof
      assume f: "faulty lib look p"
      then have "regular p" by (simp add: faulty_def regular_def)
      with p have "p \<in> set (files_of w)" by (simp add: files_of_def)
      with assms(2) f show False by blast
    qed
  qed
  from run_files_ok [OF this, of init_state] obtain st where
    "run_files lib look (entries w) init_state = Inr st" by blast
  with assms(1) show ?thesis by (simp add: main_loaded)
qed

subsection \<open>Side-car files and stubs\<close>

lemma sidecars_distinct:
  assumes n: "map fst ws = map name ms"
    and r: "map (\<lambda>x. file_relpath (snd x)) ws = map rel ms"
    and d: "distinct (map name ms)"
  shows "card (dom (map_of (rev ws))) = length ms \<and>
         (\<forall>p\<in>set ms. \<exists>d. map_of (rev ws) (name p) = Some d \<and> file_relpath d = rel p)"
proof
  have "dom (map_of (rev ws)) = set (map fst ws)"
    by (simp add: dom_map_of_conv_image_fst)
  also have "\<dots> = set (map name ms)" by (simp only: n)
  finally have "card (dom (map_of (rev ws))) = card (set (map name ms))" by simp
  also have "\<dots> = length (map name ms)" by (rule distinct_card [OF d])
  finally show "card (dom (map_of (rev ws))) = length ms" by simp
next
  have len: "length ws = length ms"
    using n by (rule map_eq_imp_length_eq)
  have dw: "distinct (map fst (rev ws))"
    using d n by (simp add: rev_map [symmetric])
  show "\<forall>p\<in>set ms. \<exists>d. map_of (rev ws) (name p) = Some d \<and> file_relpath d = rel p"
  proof
    fix p assume "p \<in> set ms"
    then obtain i where i: "i < length ms" and p: "ms ! i = p"
      by (auto simp: in_set_conv_nth)
    from i len have iw: "i < length ws" by simp
    have "map fst ws ! i = map name ms ! i" by (simp only: n)
    with i iw p have f: "fst (ws ! i) = name p" by simp
    have "map (\<lambda>x. file_relpath (snd x)) ws ! i = map rel ms ! i" by (simp only: r)
    with i iw p have g: "file_relpath (snd (ws ! i)) = rel p" by simp
    from iw have "(fst (ws ! i), snd (ws ! i)) \<in> set (rev ws)" by simp
    with dw have "map_of (rev ws) (fst (ws ! i)) = Some (snd (ws ! i))"
      by (rule map_of_is_SomeI)
    with f g show "\<exists>d. map_of (rev ws) (name p) = Some d \<and> file_relpath d = rel p"
      by auto
  qed
qed

lemma describe_unreadable:
  "content fp = Unreadable \<Longrightarrow> describe lib row sub fp = Inl OSError"
  by (simp add: describe_def sha256sum_def bindE_def)

lemma build_stub_non_numeric:
  assumes "non_numeric lib row ''latitude'' \<or> non_numeric lib row ''longitude''"
  shows "\<exists>e. build_stub lib row fp rel ck = Inl e"
proof -
  have lat: "\<exists>e. bindE (getitem row k) (py_float lib) = Inl e" if "non_numeric lib row k" for k
    using that
    by (auto simp: non_numeric_def getitem_def bindE_def py_float_def
        split: option.splits pyval.splits)
  from assms show ?thesis
  proof
    assume "non_numeric lib row ''latitude''"
    from lat [OF this] obtain e where "bindE (getitem row ''latitude'') (py_float lib) = Inl e" ..
    then show ?thesis
      by (auto simp: build_stub_def Let_def bindE_def split: sum.splits)
  next
    assume "non_numeric lib row ''longitude''"
    from lat [OF this] obtain e where "bindE (getitem row ''longitude'') (py_float lib) = Inl e" ..
    then show ?thesis
      by (auto simp: build_stub_def Let_def bindE_def split: sum.splits)
  qed
qed

lemma describe_non_numeric:
  assumes "non_numeric lib row ''latitude'' \<or> non_numeric lib row ''longitude''"
  shows "\<exists>e. describe lib row sub fp = Inl e"
proof (cases "sha256sum lib fp 131072")
  case (Inl e)
  then show ?thesis by (simp add: describe_def bindE_def)
next
  case (Inr ck)
  from build_stub_non_numeric [OF assms, of fp "sub # below fp" ck] Inr show ?thesis
    by (simp add: describe_def bindE_def)
qed

subsection \<open>The sample visits, evaluated\<close>

lemmas sample_defs =
  sample_lib_def bird_row_def media_def visit_def SITE_ID_def VISIT_DATE_def
  upper_def upper_char_def file_key_def manifest_key_def good_row_def good_key_def bad_row_def
  mixed_visit_def twin_visit_def unreadable_visit_def unreadable_second_visit_def
  unreadable_first_visit_def bad_latitude_visit_def good_index_def bad_index_def
  no_manifest_visit_def plain_visit_def

lemmas code_defs =
  main_def load_deployments_def row_key_def getitem_def get_or_none_def bindE_def
  py_float_def loop_body_def sha256sum_def build_stub_def init_state_def make_report_def
  stem_def rfind_def read_chunks.simps Let_def

lemma load_good: "load_deployments (Csv_rows [good_row]) = Inr good_index"
  by (simp add: load_deployments_def row_key_def getitem_def bindE_def sample_defs)

lemma load_bad: "load_deployments (Csv_rows [bad_row]) = Inr bad_index"
  by (simp add: load_deployments_def row_key_def getitem_def bindE_def sample_defs)

lemma file_key_bird: "file_key ''bird_01'' = good_key"
  by (simp add: sample_defs)

lemma row_key_bad: "row_key bad_row = Inr good_key"
  by (simp add: row_key_def getitem_def bindE_def sample_defs)

lemma non_numeric_bad: "non_numeric sample_lib bad_row ''latitude''"
  by (simp add: non_numeric_def sample_defs)

lemma allowed_order_visit: "allowed_order (visit rows birds bats)"
  by (simp add: allowed_order_def visit_def ALLOWED_DIRS_def)

lemma allowed_order_samples:
  "allowed_order mixed_visit"
  "allowed_order plain_visit"
  "allowed_order twin_visit"
  "allowed_order unreadable_visit"
  "allowed_order unreadable_first_visit"
  "allowed_order unreadable_second_visit"
  "allowed_order bad_latitude_visit"
  by (simp_all add: mixed_visit_def plain_visit_def twin_visit_def unreadable_visit_def
      unreadable_first_visit_def unreadable_second_visit_def bad_latitude_visit_def
      allowed_order_visit)

lemma manifest_visit: "manifest (visit rows birds bats) = Csv_rows rows"
  by (simp add: visit_def)

lemma entries_visit:
  "entries (visit rows birds bats) = map (Pair ''bird_01'') birds @ map (Pair ''bat_01'') bats"
  by (simp add: entries_def visit_def)

lemma files_of_visit:
  "files_of (visit rows birds bats) =
     map (Pair ''bird_01'') (filter is_file birds) @ map (Pair ''bat_01'') (filter is_file bats)"
  by (simp add: files_of_def entries_def visit_def regular_def filter_map comp_def)

lemma good_index_bird: "good_index (file_key ''bird_01'') = Some good_row"
  by (simp add: good_index_def file_key_bird)

lemma good_index_bat: "good_index (file_key ''bat_01'') = None"
  by (simp add: sample_defs)

lemma describe_good:
  "describe sample_lib good_row ''bird_01'' (media ''a.wav'' (Bytes [1, 2, 3])) =
     Inr \<lparr> site_id = ''SNARL'',
           deployment_id = PyStr ''SNARL_BIRD_01_20250610'',
           device_serial = PyStr ''bird_01'',
           sensor_type = PyStr ''audio'',
           latitude = ''37'',
           longitude = ''118'',
           start_utc = PyNone,
           end_utc = PyNone,
           timestamp_file = ''2025-06-10T12:00:00Z'',
           checksum_sha256 = sha256_hex sample_lib [1, 2, 3],
           file_relpath = ''bird_01/a.wav'',
           import_version = ''0.1'' \<rparr>"
  by (simp add: describe_def code_defs sample_defs)

lemma sidecar_name_a: "sidecar_name (''bird_01'', media ''a.wav'' d) = ''a.json''"
  by (simp add: sidecar_name_def media_def stem_def rfind_def)

lemma rel_of_a: "rel_of (''bird_01'', media ''a.wav'' d) = ''bird_01/a.wav''"
  by (simp add: rel_of_def media_def)

lemma main_mixed:
  "main sample_lib mixed_visit =
     \<lparr> exit_of = SysExit ''Fix blocking issues (see report) before promotion.'',
       final =
         \<lparr> total_files = 2, unmatched_files = [''bat_01/x.wav''], written_sidecars = 1,
           sidecar_writes =
             [(''a.json'',
               \<lparr> site_id = ''SNARL'',
                 deployment_id = PyStr ''SNARL_BIRD_01_20250610'',
                 device_serial = PyStr ''bird_01'',
                 sensor_type = PyStr ''audio'',
                 latitude = ''37'',
                 longitude = ''118'',
                 start_utc = PyNone,
                 end_utc = PyNone,
                 timestamp_file = ''2025-06-10T12:00:00Z'',
                 checksum_sha256 = sha256_hex sample_lib [1, 2, 3],
                 file_relpath = ''bird_01/a.wav'',
                 import_version = ''0.1'' \<rparr>)] \<rparr>,
       report_of =
         Some \<lparr> rep_total = 2, rep_written = 1,
                rep_verdict = Issues 1 [''bat_01/x.wav''] \<rparr> \<rparr>"
  by (simp add: code_defs sample_defs)

lemma main_plain:
  "exit_of (main sample_lib plain_visit) = Returned"
  "report_of (main sample_lib plain_visit) =
     Some \<lparr> rep_total = 1, rep_written = 1, rep_verdict = All_passed \<rparr>"
  by (simp_all add: code_defs sample_defs)

lemma main_no_manifest:
  "exit_of (main sample_lib no_manifest_visit) = SysExit ''ERROR  Deployment CSV missing''"
  by (simp add: main_def no_manifest_visit_def)

lemma main_twin:
  "exit_of (main sample_lib twin_visit) = Returned"
  "unmatched_files (final (main sample_lib twin_visit)) = []"
  "written_sidecars (final (main sample_lib twin_visit)) = 2"
  "map fst (sidecar_writes (final (main sample_lib twin_visit))) = [''a.json'', ''a.json'']"
  by (simp_all add: code_defs sample_defs)

lemma main_unreadable:
  "main sample_lib unreadable_visit =
     \<lparr> exit_of = Uncaught OSError,
       final = \<lparr> total_files = 1, unmatched_files = [], written_sidecars = 0,
                 sidecar_writes = [] \<rparr>,
       report_of = None \<rparr>"
  by (simp add: code_defs sample_defs)

lemma main_unreadable_first:
  "main sample_lib unreadable_first_visit =
     \<lparr> exit_of = Uncaught OSError,
       final = \<lparr> total_files = 1, unmatched_files = [], written_sidecars = 0,
                 sidecar_writes = [] \<rparr>,
       report_of = None \<rparr>"
  by (simp add: code_defs sample_defs)

lemma main_unreadable_second:
  "exit_of (main sample_lib unreadable_second_visit) = Uncaught OSError"
  "map fst (sidecar_writes (final (main sample_lib unreadable_second_visit))) = [''a.json'']"
  "total_files (final (main sample_lib unreadable_second_visit)) = 2"
  "written_sidecars (final (main sample_lib unreadable_second_visit)) = 1"
  "unmatched_files (final (main sample_lib unreadable_second_visit)) = []"
  "report_of (main sample_lib unreadable_second_visit) = None"
  by (simp_all add: code_defs sample_defs)

lemma main_bad_latitude:
  "main sample_lib bad_latitude_visit =
     \<lparr> exit_of = Uncaught ValueError,
       final = \<lparr> total_files = 1, unmatched_files = [], written_sidecars = 0,
                 sidecar_writes = [] \<rparr>,
       report_of = None \<rparr>"
  by (simp add: code_defs sample_defs)

section \<open>The claims\<close>

subsection \<open>Side-cars and matched files\<close>

text \<open>
  Claim C1, as the code has it. Take a run whose manifest loads and that no uncaught
  exception ends. Then the side-car writes are one per matched discovered file and none
  for an unmatched one, in enumeration order: the counter \<^verbatim>\<open>written_sidecars\<close> is the
  number of matched files, the names written are the side-car names of the matched files
  and the stubs written carry their relative paths. The side-car of a file is named after
  its stem alone, so when the matched files have pairwise distinct side-car names, the
  folder \<^verbatim>\<open>json_meta\<close> holds exactly one descriptor file per matched file, as many files as
  there are matched files.
\<close>

theorem sidecars_of_completed_run:
  assumes "load_deployments (manifest w) = Inr look"
    and "\<forall>e. exit_of (main lib w) \<noteq> Uncaught e"
  shows "written_sidecars (final (main lib w)) = length (filter (matched look) (files_of w)) \<and>
         map fst (sidecar_writes (final (main lib w))) =
           map sidecar_name (filter (matched look) (files_of w)) \<and>
         map (\<lambda>x. file_relpath (snd x)) (sidecar_writes (final (main lib w))) =
           map rel_of (filter (matched look) (files_of w)) \<and>
         (distinct (map sidecar_name (filter (matched look) (files_of w))) \<longrightarrow>
            card (dom (json_meta (final (main lib w)))) =
              length (filter (matched look) (files_of w)) \<and>
            (\<forall>p\<in>set (filter (matched look) (files_of w)).
               \<exists>d. json_meta (final (main lib w)) (sidecar_name p) = Some d \<and>
                   file_relpath d = rel_of p))"
proof -
  let ?st = "final (main lib w)"
  from main_completed [OF assms] have e: "effect look (entries w) init_state ?st"
    by simp
  note f = effect_init [OF e]
  from sidecars_distinct [OF f(4) f(5)] f(3,4,5) show ?thesis
    by (simp add: json_meta_def)
qed

text \<open>
  The run over \<open>mixed_visit\<close>: one matched file, one unmatched, one descriptor file.
\<close>

theorem sidecars_of_completed_run_witness:
  "load_deployments (manifest mixed_visit) = Inr good_index \<and>
   exit_of (main sample_lib mixed_visit) =
     SysExit ''Fix blocking issues (see report) before promotion.'' \<and>
   filter (matched good_index) (files_of mixed_visit) =
     [(''bird_01'', media ''a.wav'' (Bytes [1, 2, 3]))] \<and>
   written_sidecars (final (main sample_lib mixed_visit)) = 1 \<and>
   map fst (sidecar_writes (final (main sample_lib mixed_visit))) = [''a.json''] \<and>
   card (dom (json_meta (final (main sample_lib mixed_visit)))) = 1 \<and>
   (\<exists>d. json_meta (final (main sample_lib mixed_visit)) ''a.json'' = Some d \<and>
        file_relpath d = ''bird_01/a.wav'')"
proof -
  have l: "load_deployments (manifest mixed_visit) = Inr good_index"
    by (simp add: mixed_visit_def manifest_visit load_good)
  have x: "\<forall>e. exit_of (main sample_lib mixed_visit) \<noteq> Uncaught e"
    by (simp add: main_mixed)
  have m: "filter (matched good_index) (files_of mixed_visit) =
      [(''bird_01'', media ''a.wav'' (Bytes [1, 2, 3]))]"
    by (simp add: mixed_visit_def files_of_visit matched_def good_index_bird good_index_bat
        media_def)
  from sidecars_of_completed_run [OF l x] l m show ?thesis
    by (simp add: sidecar_name_a rel_of_a main_mixed)
qed

text \<open>
  The claim as stated fails in two ways. In \<open>twin_visit\<close> the run succeeds, both files
  match and two writes happen, but \<^verbatim>\<open>a.wav\<close> and \<^verbatim>\<open>a.jpg\<close> share the side-car
  \<^verbatim>\<open>a.json\<close>: one descriptor file exists for two matched files. In
  \<open>unreadable_second_visit\<close> the file \<^verbatim>\<open>b.wav\<close> matches and is counted, and the run ends
  on it with one side-car written for two matched files.
\<close>

theorem one_sidecar_per_match_counterexample:
  "allowed_order twin_visit \<and>
   allowed_order unreadable_second_visit \<and>
   exit_of (main sample_lib twin_visit) = Returned \<and>
   files_of twin_visit =
     [(''bird_01'', media ''a.wav'' (Bytes [1, 2, 3])),
      (''bird_01'', media ''a.jpg'' (Bytes [4]))] \<and>
   unmatched_files (final (main sample_lib twin_visit)) = [] \<and>
   written_sidecars (final (main sample_lib twin_visit)) = 2 \<and>
   map fst (sidecar_writes (final (main sample_lib twin_visit))) = [''a.json'', ''a.json''] \<and>
   dom (json_meta (final (main sample_lib twin_visit))) = {''a.json''} \<and>
   exit_of (main sample_lib unreadable_second_visit) = Uncaught OSError \<and>
   load_deployments (manifest unreadable_second_visit) = Inr good_index \<and>
   matched good_index (''bird_01'', media ''b.wav'' Unreadable) \<and>
   total_files (final (main sample_lib unreadable_second_visit)) = 2 \<and>
   map fst (sidecar_writes (final (main sample_lib unreadable_second_visit))) = [''a.json'']"
proof -
  have "dom (json_meta (final (main sample_lib twin_visit))) =
      set (map fst (sidecar_writes (final (main sample_lib twin_visit))))"
    by (simp add: json_meta_def dom_map_of_conv_image_fst)
  then have "dom (json_meta (final (main sample_lib twin_visit))) = {''a.json''}"
    by (simp only: main_twin) simp
  moreover have "files_of twin_visit =
     [(''bird_01'', media ''a.wav'' (Bytes [1, 2, 3])),
      (''bird_01'', media ''a.jpg'' (Bytes [4]))]"
    by (simp add: twin_visit_def files_of_visit media_def)
  moreover have "load_deployments (manifest unreadable_second_visit) = Inr good_index"
    by (simp add: unreadable_second_visit_def manifest_visit load_good)
  moreover have "matched good_index (''bird_01'', media ''b.wav'' Unreadable)"
    by (simp add: matched_def good_index_bird)
  ultimately show ?thesis
    by (simp add: main_twin main_unreadable_second allowed_order_samples)
qed

subsection \<open>Exit status\<close>

text \<open>
  Claim C2, as the code has it. The process ends with a failure indication if the manifest
  cannot be loaded (it is missing, cannot be read, or a row lacks a key column), and if a
  matched file raises while its checksum or its stub is computed; in both cases no report
  is written. In every other run a report is written, and the process fails if and only if
  the unmatched count of the report is not zero; with a zero count \<^verbatim>\<open>main\<close> returns.
\<close>

theorem exit_contract:
  "(\<forall>e. load_deployments (manifest w) = Inl e \<longrightarrow>
      failure (exit_of (main lib w)) \<and> report_of (main lib w) = None) \<and>
   (\<forall>look. load_deployments (manifest w) = Inr look \<longrightarrow>
      ((\<exists>p\<in>set (files_of w). faulty lib look p) \<longrightarrow>
         failure (exit_of (main lib w)) \<and> report_of (main lib w) = None) \<and>
      ((\<forall>p\<in>set (files_of w). \<not> faulty lib look p) \<longrightarrow>
         (\<exists>r. report_of (main lib w) = Some r \<and>
              rep_unmatched r = length (unmatched_files (final (main lib w))) \<and>
              failure (exit_of (main lib w)) = (rep_unmatched r \<noteq> 0) \<and>
              (rep_unmatched r = 0 \<longrightarrow> exit_of (main lib w) = Returned))))"
proof (intro conjI allI impI)
  fix e assume "load_deployments (manifest w) = Inl e"
  from main_not_loaded [OF this, of lib]
  show "failure (exit_of (main lib w))" and "report_of (main lib w) = None"
    by simp_all
next
  fix look assume l: "load_deployments (manifest w) = Inr look"
    and "\<exists>p\<in>set (files_of w). faulty lib look p"
  then obtain p where "p \<in> set (files_of w)" "faulty lib look p" by blast
  from main_faulty [OF l this]
  show "failure (exit_of (main lib w))" and "report_of (main lib w) = None"
    by auto
next
  fix look assume l: "load_deployments (manifest w) = Inr look"
    and n: "\<forall>p\<in>set (files_of w). \<not> faulty lib look p"
  let ?st = "final (main lib w)"
  from main_completed [OF l main_no_fault [OF l n]]
  have r: "report_of (main lib w) = Some (make_report ?st)"
    and x: "exit_of (main lib w) =
           (if unmatched_files ?st = [] then Returned
            else SysExit ''Fix blocking issues (see report) before promotion.'')"
    by simp_all
  have u: "rep_unmatched (make_report ?st) = length (unmatched_files ?st)"
    by (simp add: make_report_def rep_unmatched_def)
  from r u x
  show "\<exists>r. report_of (main lib w) = Some r \<and>
              rep_unmatched r = length (unmatched_files (final (main lib w))) \<and>
              failure (exit_of (main lib w)) = (rep_unmatched r \<noteq> 0) \<and>
              (rep_unmatched r = 0 \<longrightarrow> exit_of (main lib w) = Returned)"
    by simp
qed

text \<open>
  The four kinds of run: no manifest, an unreadable matched file, a clean run, a run with
  an unmatched file.
\<close>

theorem exit_contract_witness:
  "failure (exit_of (main sample_lib no_manifest_visit)) \<and>
   failure (exit_of (main sample_lib unreadable_visit)) \<and>
   report_of (main sample_lib unreadable_visit) = None \<and>
   (\<exists>r. report_of (main sample_lib plain_visit) = Some r \<and> rep_unmatched r = 0) \<and>
   exit_of (main sample_lib plain_visit) = Returned \<and>
   (\<exists>r. report_of (main sample_lib mixed_visit) = Some r \<and> rep_unmatched r = 1) \<and>
   failure (exit_of (main sample_lib mixed_visit))"
proof -
  have a: "load_deployments (manifest no_manifest_visit) = Inl OSError"
    by (simp add: no_manifest_visit_def load_deployments_def)
  from exit_contract [of no_manifest_visit sample_lib] a
  have 1: "failure (exit_of (main sample_lib no_manifest_visit))"
    by blast
  have b: "load_deployments (manifest unreadable_visit) = Inr good_index"
    by (simp add: unreadable_visit_def manifest_visit load_good)
  have "faulty sample_lib good_index (''bird_01'', media ''a.wav'' Unreadable)"
    by (simp add: faulty_def good_index_bird describe_unreadable media_def)
  moreover have "(''bird_01'', media ''a.wav'' Unreadable) \<in> set (files_of unreadable_visit)"
    by (simp add: unreadable_visit_def files_of_visit media_def)
  ultimately have "\<exists>p\<in>set (files_of unreadable_visit). faulty sample_lib good_index p"
    by blast
  with exit_contract [of unreadable_visit sample_lib] b
  have 2: "failure (exit_of (main sample_lib unreadable_visit)) \<and>
      report_of (main sample_lib unreadable_visit) = None"
    by blast
  have g: "\<not> faulty sample_lib good_index (''bird_01'', media ''a.wav'' (Bytes [1, 2, 3]))"
    by (simp add: faulty_def good_index_bird describe_good)
  have h: "\<not> faulty sample_lib good_index (''bat_01'', media ''x.wav'' (Bytes [7]))"
    by (simp add: faulty_def good_index_bat)
  have c: "load_deployments (manifest plain_visit) = Inr good_index"
    by (simp add: plain_visit_def manifest_visit load_good)
  have "\<forall>p\<in>set (files_of plain_visit). \<not> faulty sample_lib good_index p"
    using g by (simp add: plain_visit_def files_of_visit media_def)
  with exit_contract [of plain_visit sample_lib] c
  have 3: "\<exists>r. report_of (main sample_lib plain_visit) = Some r \<and>
      rep_unmatched r = length (unmatched_files (final (main sample_lib plain_visit))) \<and>
      failure (exit_of (main sample_lib plain_visit)) = (rep_unmatched r \<noteq> 0) \<and>
      (rep_unmatched r = 0 \<longrightarrow> exit_of (main sample_lib plain_visit) = Returned)"
    by blast
  have d: "load_deployments (manifest mixed_visit) = Inr good_index"
    by (simp add: mixed_visit_def manifest_visit load_good)
  have "\<forall>p\<in>set (files_of mixed_visit). \<not> faulty sample_lib good_index p"
    using g h by (simp add: mixed_visit_def files_of_visit media_def)
  with exit_contract [of mixed_visit sample_lib] d
  have 4: "\<exists>r. report_of (main sample_lib mixed_visit) = Some r \<and>
      rep_unmatched r = length (unmatched_files (final (main sample_lib mixed_visit))) \<and>
      failure (exit_of (main sample_lib mixed_visit)) = (rep_unmatched r \<noteq> 0) \<and>
      (rep_unmatched r = 0 \<longrightarrow> exit_of (main sample_lib mixed_visit) = Returned)"
    by blast
  from 1 2 3 4 show ?thesis
    by (auto simp: main_plain main_mixed rep_unmatched_def)
qed

text \<open>
  The claim as stated fails on \<open>unreadable_visit\<close>: the manifest loads, the only file
  matches, no path is unmatched, and the process still ends in failure, by an
  \<^verbatim>\<open>OSError\<close> nobody catches.
\<close>

theorem exit_contract_counterexample:
  "allowed_order unreadable_visit \<and>
   load_deployments (manifest unreadable_visit) = Inr good_index \<and>
   files_of unreadable_visit = [(''bird_01'', media ''a.wav'' Unreadable)] \<and>
   matched good_index (''bird_01'', media ''a.wav'' Unreadable) \<and>
   unmatched_files (final (main sample_lib unreadable_visit)) = [] \<and>
   exit_of (main sample_lib unreadable_visit) = Uncaught OSError \<and>
   failure (exit_of (main sample_lib unreadable_visit))"
proof -
  have "load_deployments (manifest unreadable_visit) = Inr good_index"
    by (simp add: unreadable_visit_def manifest_visit load_good)
  moreover have "files_of unreadable_visit = [(''bird_01'', media ''a.wav'' Unreadable)]"
    by (simp add: unreadable_visit_def files_of_visit media_def)
  moreover have "matched good_index (''bird_01'', media ''a.wav'' Unreadable)"
    by (simp add: matched_def good_index_bird)
  ultimately show ?thesis
    by (simp add: main_unreadable allowed_order_samples)
qed

subsection \<open>Rows with a latitude or longitude that is no number\<close>

text \<open>
  Claim C3, as the code has it. Loading does not look at latitude or longitude: a row
  whose latitude or longitude cell holds a string that \<^verbatim>\<open>float\<close> rejects is filed in the
  index like any other row, and loading raises nothing because of it. When that row is
  the one the index holds for the key of a sub-folder, a discovered file of that
  sub-folder is matched, not unmatched; the loop body raises for it after counting it, and
  the run ends there with an uncaught exception and without a report.
\<close>

theorem non_numeric_row_aborts:
  assumes "manifest w = Csv_rows (pre @ row # post)"
    and "\<forall>r\<in>set (pre @ row # post). \<exists>k. row_key r = Inr k"
    and "row_key row = Inr (file_key sub)"
    and "\<forall>r\<in>set post. row_key r \<noteq> Inr (file_key sub)"
    and "non_numeric lib row ''latitude'' \<or> non_numeric lib row ''longitude''"
    and "(sub, fp) \<in> set (files_of w)"
  shows "\<exists>look. load_deployments (manifest w) = Inr look \<and>
           look (file_key sub) = Some row \<and>
           (\<forall>st. \<exists>e. loop_body lib look sub fp st =
                    Inl (e, st\<lparr>total_files := total_files st + 1\<rparr>)) \<and>
           (\<exists>e. exit_of (main lib w) = Uncaught e) \<and>
           report_of (main lib w) = None"
proof -
  from load_rows_ok [OF assms(2)] obtain look where
    lr: "load_rows (pre @ row # post) Map.empty = Inr look" by blast
  with assms(1) have l: "load_deployments (manifest w) = Inr look"
    by (simp add: load_deployments_def)
  from load_rows_last [OF lr assms(3,4)] have k: "look (file_key sub) = Some row" .
  from assms(6) have f: "is_file fp" by (simp add: files_of_def regular_def)
  from describe_non_numeric [OF assms(5)] obtain e where
    d: "describe lib row sub fp = Inl e" by blast
  from f k d have "faulty lib look (sub, fp)" by (simp add: faulty_def)
  from main_faulty [OF l assms(6) this] l k f d show ?thesis
    by (auto simp: loop_body_matched)
qed

text \<open>
  The run over \<open>bad_latitude_visit\<close>, whose only row has the latitude \<^verbatim>\<open>abc\<close>.
\<close>

theorem non_numeric_row_aborts_witness:
  "manifest bad_latitude_visit = Csv_rows ([] @ bad_row # []) \<and>
   row_key bad_row = Inr (file_key ''bird_01'') \<and>
   bad_row ''latitude'' = Some (PyStr ''abc'') \<and>
   float_of sample_lib ''abc'' = None \<and>
   (\<exists>look. load_deployments (manifest bad_latitude_visit) = Inr look \<and>
      look (file_key ''bird_01'') = Some bad_row \<and>
      (\<forall>st. \<exists>e. loop_body sample_lib look ''bird_01'' (media ''a.wav'' (Bytes [1, 2, 3])) st =
               Inl (e, st\<lparr>total_files := total_files st + 1\<rparr>)) \<and>
      (\<exists>e. exit_of (main sample_lib bad_latitude_visit) = Uncaught e) \<and>
      report_of (main sample_lib bad_latitude_visit) = None)"
proof -
  have m: "manifest bad_latitude_visit = Csv_rows ([] @ bad_row # [])"
    by (simp add: bad_latitude_visit_def manifest_visit)
  have k: "row_key bad_row = Inr (file_key ''bird_01'')"
    by (simp add: row_key_bad file_key_bird)
  have a: "\<forall>r\<in>set ([] @ bad_row # []). \<exists>k. row_key r = Inr k"
    by (simp add: row_key_bad)
  have p: "\<forall>r\<in>set []. row_key r \<noteq> Inr (file_key ''bird_01'')"
    by simp
  have n: "non_numeric sample_lib bad_row ''latitude'' \<or>
      non_numeric sample_lib bad_row ''longitude''"
    by (simp add: non_numeric_bad)
  have f: "(''bird_01'', media ''a.wav'' (Bytes [1, 2, 3])) \<in> set (files_of bad_latitude_visit)"
    by (simp add: bad_latitude_visit_def files_of_visit media_def)
  have c: "bad_row ''latitude'' = Some (PyStr ''abc'')"
    by (simp add: sample_defs)
  have d: "float_of sample_lib ''abc'' = None"
    by (simp add: sample_defs)
  from non_numeric_row_aborts [OF m a k p n f] m k c d show ?thesis
    by blast
qed

text \<open>
  The claim as stated fails on \<open>bad_latitude_visit\<close>: the row with latitude \<^verbatim>\<open>abc\<close>
  is in the index, the file that resolves to it is not listed as unmatched, and the run
  ends with an uncaught \<^verbatim>\<open>ValueError\<close>.
\<close>

theorem bad_row_excluded_counterexample:
  "allowed_order bad_latitude_visit \<and>
   bad_row ''latitude'' = Some (PyStr ''abc'') \<and>
   float_of sample_lib ''abc'' = None \<and>
   load_deployments (manifest bad_latitude_visit) = Inr bad_index \<and>
   bad_index (file_key ''bird_01'') = Some bad_row \<and>
   files_of bad_latitude_visit = [(''bird_01'', media ''a.wav'' (Bytes [1, 2, 3]))] \<and>
   main sample_lib bad_latitude_visit =
     \<lparr> exit_of = Uncaught ValueError,
       final = \<lparr> total_files = 1, unmatched_files = [], written_sidecars = 0,
                 sidecar_writes = [] \<rparr>,
       report_of = None \<rparr>"
proof -
  have "bad_row ''latitude'' = Some (PyStr ''abc'')"
    by (simp add: sample_defs)
  moreover have "float_of sample_lib ''abc'' = None"
    by (simp add: sample_defs)
  moreover have "load_deployments (manifest bad_latitude_visit) = Inr bad_index"
    by (simp add: bad_latitude_visit_def manifest_visit load_bad)
  moreover have "bad_index (file_key ''bird_01'') = Some bad_row"
    by (simp add: bad_index_def file_key_bird)
  moreover have "files_of bad_latitude_visit =
      [(''bird_01'', media ''a.wav'' (Bytes [1, 2, 3]))]"
    by (simp add: bad_latitude_visit_def files_of_visit media_def)
  ultimately show ?thesis
    by (simp add: main_bad_latitude allowed_order_samples)
qed

subsection \<open>Files that cannot be read\<close>

text \<open>
  Claim C4, as the code has it. Let a matched regular file be unreadable, and let nothing
  before it in the enumeration raise. Then the entries before it are processed as usual,
  the file is counted, no side-car is written for it, and the run ends there with an
  uncaught \<^verbatim>\<open>OSError\<close>: the entries after it are not processed and no report is
  written. The side-cars written before it stay.
\<close>

theorem unreadable_file_aborts:
  assumes "load_deployments (manifest w) = Inr look"
    and "entries w = pre @ (sub, fp) # post"
    and "\<forall>q\<in>set pre. \<not> faulty lib look q"
    and "is_file fp" and "matched look (sub, fp)" and "content fp = Unreadable"
  shows "\<exists>st. run_files lib look pre init_state = Inr st \<and>
           effect look pre init_state st \<and>
           main lib w =
             \<lparr> exit_of = Uncaught OSError,
               final = st\<lparr>total_files := total_files st + 1\<rparr>,
               report_of = None \<rparr>"
proof -
  from assms(5) obtain row where k: "look (file_key sub) = Some row"
    by (auto simp: matched_def)
  from describe_unreadable [OF assms(6)] have d: "describe lib row sub fp = Inl OSError" .
  from run_files_first_fault [of pre lib look "(sub, fp)" row OSError init_state post]
    assms(3,4) k d
  obtain st where "run_files lib look pre init_state = Inr st"
    "effect look pre init_state st"
    "run_files lib look (pre @ (sub, fp) # post) init_state =
       Inl (OSError, st\<lparr>total_files := total_files st + 1\<rparr>)"
    by auto
  with assms(1,2) show ?thesis by (simp add: main_loaded)
qed

text \<open>
  The run over \<open>unreadable_second_visit\<close>: \<^verbatim>\<open>a.wav\<close> gets its side-car, then
  \<^verbatim>\<open>b.wav\<close> ends the run.
\<close>

theorem unreadable_file_aborts_witness:
  "load_deployments (manifest unreadable_second_visit) = Inr good_index \<and>
   entries unreadable_second_visit =
     [(''bird_01'', media ''a.wav'' (Bytes [1, 2, 3]))] @
     (''bird_01'', media ''b.wav'' Unreadable) # [] \<and>
   is_file (media ''b.wav'' Unreadable) \<and>
   matched good_index (''bird_01'', media ''b.wav'' Unreadable) \<and>
   content (media ''b.wav'' Unreadable) = Unreadable \<and>
   (\<exists>st. run_files sample_lib good_index
            [(''bird_01'', media ''a.wav'' (Bytes [1, 2, 3]))] init_state = Inr st \<and>
         effect good_index [(''bird_01'', media ''a.wav'' (Bytes [1, 2, 3]))] init_state st \<and>
         main sample_lib unreadable_second_visit =
           \<lparr> exit_of = Uncaught OSError,
             final = st\<lparr>total_files := total_files st + 1\<rparr>,
             report_of = None \<rparr>) \<and>
   map fst (sidecar_writes (final (main sample_lib unreadable_second_visit))) = [''a.json'']"
proof -
  have l: "load_deployments (manifest unreadable_second_visit) = Inr good_index"
    by (simp add: unreadable_second_visit_def manifest_visit load_good)
  have e: "entries unreadable_second_visit =
     [(''bird_01'', media ''a.wav'' (Bytes [1, 2, 3]))] @
     (''bird_01'', media ''b.wav'' Unreadable) # []"
    by (simp add: unreadable_second_visit_def entries_visit)
  have n: "\<forall>q\<in>set [(''bird_01'', media ''a.wav'' (Bytes [1, 2, 3]))].
      \<not> faulty sample_lib good_index q"
    by (simp add: faulty_def good_index_bird describe_good)
  have f: "is_file (media ''b.wav'' Unreadable)"
    by (simp add: media_def)
  have m: "matched good_index (''bird_01'', media ''b.wav'' Unreadable)"
    by (simp add: matched_def good_index_bird)
  have c: "content (media ''b.wav'' Unreadable) = Unreadable"
    by (simp add: media_def)
  from unreadable_file_aborts [OF l e n f m c] l e f m c show ?thesis
    by (simp add: main_unreadable_second)
qed

text \<open>
  The claim as stated fails on \<open>unreadable_first_visit\<close>: the unreadable \<^verbatim>\<open>a.wav\<close>
  ends the whole run, so that the readable, matched \<^verbatim>\<open>b.wav\<close> is never counted and gets
  no side-car, and no report is written.
\<close>

theorem unreadable_file_skipped_counterexample:
  "allowed_order unreadable_first_visit \<and>
   load_deployments (manifest unreadable_first_visit) = Inr good_index \<and>
   files_of unreadable_first_visit =
     [(''bird_01'', media ''a.wav'' Unreadable),
      (''bird_01'', media ''b.wav'' (Bytes [1, 2, 3]))] \<and>
   matched good_index (''bird_01'', media ''a.wav'' Unreadable) \<and>
   matched good_index (''bird_01'', media ''b.wav'' (Bytes [1, 2, 3])) \<and>
   main sample_lib unreadable_first_visit =
     \<lparr> exit_of = Uncaught OSError,
       final = \<lparr> total_files = 1, unmatched_files = [], written_sidecars = 0,
                 sidecar_writes = [] \<rparr>,
       report_of = None \<rparr>"
proof -
  have "load_deployments (manifest unreadable_first_visit) = Inr good_index"
    by (simp add: unreadable_first_visit_def manifest_visit load_good)
  moreover have "files_of unreadable_first_visit =
     [(''bird_01'', media ''a.wav'' Unreadable),
      (''bird_01'', media ''b.wav'' (Bytes [1, 2, 3]))]"
    by (simp add: unreadable_first_visit_def files_of_visit media_def)
  moreover have "matched good_index (''bird_01'', media ''a.wav'' Unreadable)"
    and "matched good_index (''bird_01'', media ''b.wav'' (Bytes [1, 2, 3]))"
    by (simp_all add: matched_def good_index_bird)
  ultimately show ?thesis
    by (simp add: main_unreadable_first allowed_order_samples)
qed

subsection \<open>Totals\<close>

text \<open>
  Claim C5, as the code has it. In every run that produces a summary, that is, every run
  that writes its report, the total number of files found is the matched count (side-cars
  written) plus the unmatched count. The total is the number of discovered files, and
  these split in two: the files whose key the index lacks are exactly the unmatched
  paths, and the files whose key the index has are exactly the ones a side-car was
  written for. No file is in both groups and none is in neither.
\<close>

theorem totals_partition:
  assumes "report_of (main lib w) = Some r"
  shows "rep_total r = rep_written r + rep_unmatched r \<and>
         (\<exists>look. load_deployments (manifest w) = Inr look \<and>
            rep_total r = length (files_of w) \<and>
            rep_written r = length (filter (matched look) (files_of w)) \<and>
            rep_unmatched r = length (filter (\<lambda>p. \<not> matched look p) (files_of w)) \<and>
            unmatched_files (final (main lib w)) =
              map rel_of (filter (\<lambda>p. \<not> matched look p) (files_of w)) \<and>
            map (\<lambda>x. file_relpath (snd x)) (sidecar_writes (final (main lib w))) =
              map rel_of (filter (matched look) (files_of w)))"
proof -
  let ?st = "final (main lib w)"
  from main_report [OF assms] obtain look where
    l: "load_deployments (manifest w) = Inr look"
    and e: "effect look (entries w) init_state ?st"
    and r: "r = make_report ?st"
    by blast
  note f = effect_init [OF e]
  have u: "rep_unmatched r = length (unmatched_files ?st)"
    by (simp add: r make_report_def rep_unmatched_def)
  have t: "rep_total r = total_files ?st" and v: "rep_written r = written_sidecars ?st"
    by (simp_all add: r make_report_def)
  have s: "length (files_of w) =
      length (filter (matched look) (files_of w)) +
      length (filter (\<lambda>p. \<not> matched look p) (files_of w))"
    using sum_length_filter_compl [of "matched look" "files_of w"] by simp
  from f(1,2,3) s u t v have "rep_total r = rep_written r + rep_unmatched r"
    by simp
  moreover from l f u t v
  have "\<exists>look. load_deployments (manifest w) = Inr look \<and>
            rep_total r = length (files_of w) \<and>
            rep_written r = length (filter (matched look) (files_of w)) \<and>
            rep_unmatched r = length (filter (\<lambda>p. \<not> matched look p) (files_of w)) \<and>
            unmatched_files ?st =
              map rel_of (filter (\<lambda>p. \<not> matched look p) (files_of w)) \<and>
            map (\<lambda>x. file_relpath (snd x)) (sidecar_writes ?st) =
              map rel_of (filter (matched look) (files_of w))"
    by auto
  ultimately show ?thesis by blast
qed

text \<open>
  The run over \<open>mixed_visit\<close>: two files found, one matched and one unmatched.
\<close>

theorem totals_partition_witness:
  "report_of (main sample_lib mixed_visit) =
     Some \<lparr> rep_total = 2, rep_written = 1, rep_verdict = Issues 1 [''bat_01/x.wav''] \<rparr> \<and>
   rep_unmatched \<lparr> rep_total = 2, rep_written = 1,
                   rep_verdict = Issues 1 [''bat_01/x.wav''] \<rparr> = 1 \<and>
   rep_total \<lparr> rep_total = 2, rep_written = 1, rep_verdict = Issues 1 [''bat_01/x.wav''] \<rparr> =
     rep_written \<lparr> rep_total = 2, rep_written = 1,
                   rep_verdict = Issues 1 [''bat_01/x.wav''] \<rparr> +
     rep_unmatched \<lparr> rep_total = 2, rep_written = 1,
                     rep_verdict = Issues 1 [''bat_01/x.wav''] \<rparr> \<and>
   unmatched_files (final (main sample_lib mixed_visit)) = [''bat_01/x.wav'']"
proof -
  have r: "report_of (main sample_lib mixed_visit) =
     Some \<lparr> rep_total = 2, rep_written = 1, rep_verdict = Issues 1 [''bat_01/x.wav''] \<rparr>"
    by (simp add: main_mixed)
  from totals_partition [OF r] r show ?thesis
    by (simp add: rep_unmatched_def main_mixed)
qed

text \<open>
  The claim as stated, for every run, fails on \<open>unreadable_second_visit\<close>: the run
  counts two files, writes one side-car and lists no unmatched path. The matched file
  \<^verbatim>\<open>b.wav\<close> is counted when the uncaught \<^verbatim>\<open>OSError\<close> ends the run, and it is in
  neither group; no summary is written.
\<close>

theorem totals_partition_counterexample:
  "allowed_order unreadable_second_visit \<and>
   load_deployments (manifest unreadable_second_visit) = Inr good_index \<and>
   files_of unreadable_second_visit =
     [(''bird_01'', media ''a.wav'' (Bytes [1, 2, 3])),
      (''bird_01'', media ''b.wav'' Unreadable)] \<and>
   matched good_index (''bird_01'', media ''b.wav'' Unreadable) \<and>
   exit_of (main sample_lib unreadable_second_visit) = Uncaught OSError \<and>
   report_of (main sample_lib unreadable_second_visit) = None \<and>
   total_files (final (main sample_lib unreadable_second_visit)) = 2 \<and>
   written_sidecars (final (main sample_lib unreadable_second_visit)) = 1 \<and>
   unmatched_files (final (main sample_lib unreadable_second_visit)) = [] \<and>
   map fst (sidecar_writes (final (main sample_lib unreadable_second_visit))) = [''a.json'']"
proof -
  have "load_deployments (manifest unreadable_second_visit) = Inr good_index"
    by (simp add: unreadable_second_visit_def manifest_visit load_good)
  moreover have "files_of unreadable_second_visit =
     [(''bird_01'', media ''a.wav'' (Bytes [1, 2, 3])),
      (''bird_01'', media ''b.wav'' Unreadable)]"
    by (simp add: unreadable_second_visit_def files_of_visit media_def)
  moreover have "matched good_index (''bird_01'', media ''b.wav'' Unreadable)"
    by (simp add: matched_def good_index_bird)
  ultimately show ?thesis
    by (simp add: main_unreadable_second allowed_order_samples)
qed

subsection \<open>Key derivation\<close>

text \<open>
  Claim C6. The keys are derived as specified. The index a successful load returns has
  exactly the keys \<open>manifest_key s d\<close> of the rows, \<open>s\<close> the row's device serial and
  \<open>d\<close> its deployment id: the serial in upper case, the deployment id as it stands. The
  loop body looks a regular file up under \<open>file_key sub\<close>, the name of its sub-folder in
  upper case with the deployment id made of site, serial and visit date: what it does is
  decided by the index at that key.
\<close>

theorem key_derivation:
  assumes "load_deployments (Csv_rows rows) = Inr look" and "is_file fp"
  shows "dom look =
           {k. \<exists>row\<in>set rows. \<exists>s d. row ''device_serial'' = Some (PyStr s) \<and>
                 row ''deployment_id'' = Some d \<and> k = manifest_key s d} \<and>
         loop_body lib look sub fp st =
           (case look (file_key sub) of
              None \<Rightarrow> Inr (note_unmatched sub fp st)
            | Some row \<Rightarrow>
                (case describe lib row sub fp of
                   Inl e \<Rightarrow> Inl (e, st\<lparr>total_files := total_files st + 1\<rparr>)
                 | Inr stub \<Rightarrow> Inr (note_written sub fp stub st)))"
proof
  from assms(1) have "load_rows rows Map.empty = Inr look"
    by (simp add: load_deployments_rows)
  from load_rows_dom [OF this]
  show "dom look =
      {k. \<exists>row\<in>set rows. \<exists>s d. row ''device_serial'' = Some (PyStr s) \<and>
            row ''deployment_id'' = Some d \<and> k = manifest_key s d}"
    by (simp add: row_key_Inr)
next
  from assms(2)
  show "loop_body lib look sub fp st =
      (case look (file_key sub) of
         None \<Rightarrow> Inr (note_unmatched sub fp st)
       | Some row \<Rightarrow>
           (case describe lib row sub fp of
              Inl e \<Rightarrow> Inl (e, st\<lparr>total_files := total_files st + 1\<rparr>)
            | Inr stub \<Rightarrow> Inr (note_written sub fp stub st)))"
    by (cases "look (file_key sub)") (simp_all add: loop_body_unmatched loop_body_matched)
qed

text \<open>
  The row of recorder \<^verbatim>\<open>bird_01\<close> and the file \<^verbatim>\<open>bird_01/a.wav\<close>: both keys are
  \<^verbatim>\<open>(BIRD_01, SNARL_BIRD_01_20250610)\<close>.
\<close>

theorem key_derivation_witness:
  "load_deployments (Csv_rows [bird_row ''SNARL_BIRD_01_20250610'' ''audio'' ''37'']) =
     Inr [(''BIRD_01'', PyStr ''SNARL_BIRD_01_20250610'') \<mapsto>
           bird_row ''SNARL_BIRD_01_20250610'' ''audio'' ''37''] \<and>
   is_file (media ''a.wav'' (Bytes [1, 2, 3])) \<and>
   manifest_key ''bird_01'' (PyStr ''SNARL_BIRD_01_20250610'') =
     (''BIRD_01'', PyStr ''SNARL_BIRD_01_20250610'') \<and>
   file_key ''bird_01'' = (''BIRD_01'', PyStr ''SNARL_BIRD_01_20250610'') \<and>
   dom [(''BIRD_01'', PyStr ''SNARL_BIRD_01_20250610'') \<mapsto>
         bird_row ''SNARL_BIRD_01_20250610'' ''audio'' ''37''] =
     {k. \<exists>row\<in>set [bird_row ''SNARL_BIRD_01_20250610'' ''audio'' ''37''].
           \<exists>s d. row ''device_serial'' = Some (PyStr s) \<and>
             row ''deployment_id'' = Some d \<and> k = manifest_key s d} \<and>
   loop_body sample_lib
     [(''BIRD_01'', PyStr ''SNARL_BIRD_01_20250610'') \<mapsto>
       bird_row ''SNARL_BIRD_01_20250610'' ''audio'' ''37'']
     ''bird_01'' (media ''a.wav'' (Bytes [1, 2, 3])) init_state =
     Inr \<lparr> total_files = 1, unmatched_files = [], written_sidecars = 1,
           sidecar_writes =
             [(''a.json'',
               \<lparr> site_id = ''SNARL'',
                 deployment_id = PyStr ''SNARL_BIRD_01_20250610'',
                 device_serial = PyStr ''bird_01'',
                 sensor_type = PyStr ''audio'',
                 latitude = ''37'',
                 longitude = ''118'',
                 start_utc = PyNone,
                 end_utc = PyNone,
                 timestamp_file = ''2025-06-10T12:00:00Z'',
                 checksum_sha256 = sha256_hex sample_lib [1, 2, 3],
                 file_relpath = ''bird_01/a.wav'',
                 import_version = ''0.1'' \<rparr>)] \<rparr>"
proof -
  let ?r = "bird_row ''SNARL_BIRD_01_20250610'' ''audio'' ''37''"
  let ?k = "(''BIRD_01'', PyStr ''SNARL_BIRD_01_20250610'')"
  have l: "load_deployments (Csv_rows [?r]) = Inr [?k \<mapsto> ?r]"
    by (simp add: load_deployments_def row_key_def getitem_def bindE_def sample_defs)
  have f: "is_file (media ''a.wav'' (Bytes [1, 2, 3]))"
    by (simp add: media_def)
  have mk: "manifest_key ''bird_01'' (PyStr ''SNARL_BIRD_01_20250610'') = ?k"
    by (simp add: sample_defs)
  have fk: "file_key ''bird_01'' = ?k"
    by (simp add: sample_defs)
  have d: "describe sample_lib ?r ''bird_01'' (media ''a.wav'' (Bytes [1, 2, 3])) =
      Inr \<lparr> site_id = ''SNARL'',
                 deployment_id = PyStr ''SNARL_BIRD_01_20250610'',
                 device_serial = PyStr ''bird_01'',
                 sensor_type = PyStr ''audio'',
                 latitude = ''37'',
                 longitude = ''118'',
                 start_utc = PyNone,
                 end_utc = PyNone,
                 timestamp_file = ''2025-06-10T12:00:00Z'',
                 checksum_sha256 = sha256_hex sample_lib [1, 2, 3],
                 file_relpath = ''bird_01/a.wav'',
                 import_version = ''0.1'' \<rparr>"
    by (simp add: describe_def code_defs sample_defs)
  have s: "stem ''a.wav'' = ''a''"
    by (simp add: stem_def rfind_def)
  from key_derivation [OF l f, of sample_lib "''bird_01''" init_state]
  have "dom [?k \<mapsto> ?r] =
     {k. \<exists>row\<in>set [?r].
           \<exists>s d. row ''device_serial'' = Some (PyStr s) \<and>
             row ''deployment_id'' = Some d \<and> k = manifest_key s d}"
    and "loop_body sample_lib [?k \<mapsto> ?r] ''bird_01'' (media ''a.wav'' (Bytes [1, 2, 3])) init_state =
      Inr (note_written ''bird_01'' (media ''a.wav'' (Bytes [1, 2, 3]))
        \<lparr> site_id = ''SNARL'',
                 deployment_id = PyStr ''SNARL_BIRD_01_20250610'',
                 device_serial = PyStr ''bird_01'',
                 sensor_type = PyStr ''audio'',
                 latitude = ''37'',
                 longitude = ''118'',
                 start_utc = PyNone,
                 end_utc = PyNone,
                 timestamp_file = ''2025-06-10T12:00:00Z'',
                 checksum_sha256 = sha256_hex sample_lib [1, 2, 3],
                 file_relpath = ''bird_01/a.wav'',
                 import_version = ''0.1'' \<rparr> init_state)"
    by (simp_all only: fk d fun_upd_same option.case sum.case)
  then show ?thesis using l f mk fk
    by (simp add: note_written_def init_state_def media_def s)
qed

subsection \<open>Exact matching\<close>

text \<open>
  Claim C7. Matching is an exact lookup. When no manifest row has exactly the key derived
  for a sub-folder, the index has no entry at that key and every regular file of the
  sub-folder is counted and listed as unmatched, whatever other keys the manifest has; no
  other key is tried. A row whose deployment id differs from the derived one only in case
  is such a row.
\<close>

theorem exact_match_only:
  assumes "load_deployments (Csv_rows rows) = Inr look"
    and "\<forall>row\<in>set rows. row_key row \<noteq> Inr (file_key sub)"
    and "is_file fp"
  shows "look (file_key sub) = None \<and>
         loop_body lib look sub fp st = Inr (note_unmatched sub fp st)"
proof -
  from assms(1) have "load_rows rows Map.empty = Inr look"
    by (simp add: load_deployments_rows)
  from load_rows_other [OF this assms(2)] have "look (file_key sub) = None"
    by simp
  with assms(3) show ?thesis by (simp add: loop_body_unmatched)
qed

text \<open>
  A manifest whose row has the deployment id in lower case: the upper-case forms agree,
  the keys do not, and the file is unmatched.
\<close>

theorem exact_match_only_witness:
  "load_deployments (Csv_rows [bird_row ''snarl_bird_01_20250610'' ''audio'' ''37'']) =
     Inr [(''BIRD_01'', PyStr ''snarl_bird_01_20250610'') \<mapsto>
           bird_row ''snarl_bird_01_20250610'' ''audio'' ''37''] \<and>
   file_key ''bird_01'' = (''BIRD_01'', PyStr ''SNARL_BIRD_01_20250610'') \<and>
   upper ''snarl_bird_01_20250610'' = ''SNARL_BIRD_01_20250610'' \<and>
   is_file (media ''a.wav'' (Bytes [1, 2, 3])) \<and>
   loop_body sample_lib
     [(''BIRD_01'', PyStr ''snarl_bird_01_20250610'') \<mapsto>
       bird_row ''snarl_bird_01_20250610'' ''audio'' ''37'']
     ''bird_01'' (media ''a.wav'' (Bytes [1, 2, 3])) init_state =
     Inr \<lparr> total_files = 1, unmatched_files = [''bird_01/a.wav''], written_sidecars = 0,
           sidecar_writes = [] \<rparr>"
proof -
  let ?r = "bird_row ''snarl_bird_01_20250610'' ''audio'' ''37''"
  let ?k = "(''BIRD_01'', PyStr ''snarl_bird_01_20250610'')"
  have rk: "row_key ?r = Inr ?k"
    by (simp add: row_key_def getitem_def bindE_def sample_defs)
  have l: "load_deployments (Csv_rows [?r]) = Inr [?k \<mapsto> ?r]"
    by (simp add: load_deployments_def rk)
  have fk: "file_key ''bird_01'' = (''BIRD_01'', PyStr ''SNARL_BIRD_01_20250610'')"
    by (simp add: sample_defs)
  have n: "\<forall>row\<in>set [?r]. row_key row \<noteq> Inr (file_key ''bird_01'')"
    by (simp add: rk fk)
  have f: "is_file (media ''a.wav'' (Bytes [1, 2, 3]))"
    by (simp add: media_def)
  have u: "upper ''snarl_bird_01_20250610'' = ''SNARL_BIRD_01_20250610''"
    by (simp add: sample_defs)
  from exact_match_only [OF l n f, of sample_lib init_state] l fk u f
  show ?thesis
    by (simp add: note_unmatched_def init_state_def media_def)
qed

subsection \<open>Duplicate manifest keys\<close>

text \<open>
  Claim C8. When several manifest rows have the same composite key, loading raises nothing
  and the index holds the last of them under that key: a row \<open>r\<close> with key \<open>k\<close> that no
  later row shares is what the index returns for \<open>k\<close>, whatever rows come before it.
\<close>

theorem last_row_wins:
  assumes "\<forall>r'\<in>set (pre @ r # post). \<exists>k'. row_key r' = Inr k'"
    and "row_key r = Inr k"
    and "\<forall>r'\<in>set post. row_key r' \<noteq> Inr k"
  shows "\<exists>look. load_deployments (Csv_rows (pre @ r # post)) = Inr look \<and> look k = Some r"
proof -
  from load_rows_ok [OF assms(1)] obtain look where
    l: "load_rows (pre @ r # post) Map.empty = Inr look"
    by blast
  from load_rows_last [OF l assms(2,3)] l show ?thesis
    by (simp add: load_deployments_def)
qed

text \<open>
  Two rows of recorder \<^verbatim>\<open>bird_01\<close> with the same deployment id: the second one is
  kept.
\<close>

theorem last_row_wins_witness:
  "row_key (bird_row ''D1'' ''camera'' ''38'') = Inr (''BIRD_01'', PyStr ''D1'') \<and>
   row_key (bird_row ''D1'' ''audio'' ''37'') = Inr (''BIRD_01'', PyStr ''D1'') \<and>
   (\<exists>look. load_deployments
       (Csv_rows ([bird_row ''D1'' ''audio'' ''37''] @ bird_row ''D1'' ''camera'' ''38'' # [])) =
       Inr look \<and>
     look (''BIRD_01'', PyStr ''D1'') = Some (bird_row ''D1'' ''camera'' ''38''))"
proof -
  have k1: "row_key (bird_row ''D1'' ''audio'' ''37'') = Inr (''BIRD_01'', PyStr ''D1'')"
    by (simp add: row_key_def getitem_def bindE_def sample_defs)
  have k2: "row_key (bird_row ''D1'' ''camera'' ''38'') = Inr (''BIRD_01'', PyStr ''D1'')"
    by (simp add: row_key_def getitem_def bindE_def sample_defs)
  have a: "\<forall>r'\<in>set ([bird_row ''D1'' ''audio'' ''37''] @ bird_row ''D1'' ''camera'' ''38'' # []).
      \<exists>k'. row_key r' = Inr k'"
    using k1 k2 by simp
  have c: "\<forall>r'\<in>set []. row_key r' \<noteq> Inr (''BIRD_01'', PyStr ''D1'')"
    by simp
  from last_row_wins [OF a k2 c] k1 k2 show ?thesis by blast
qed

subsection \<open>Fingerprint\<close>

text \<open>
  Claim C9. The fingerprint is deterministic and content-addressed: two files with the same
  bytes get the same digest whatever their paths and modification times, and the digest is
  the SHA-256 of the whole content although the file is read in chunks of a bounded size
  (any positive block size; \<^verbatim>\<open>main\<close> uses 131072).
\<close>

theorem fingerprint_content_addressed:
  assumes "0 < block" and "content f1 = Bytes bs" and "content f2 = Bytes bs"
  shows "sha256sum lib f1 block = Inr (sha256_hex lib bs) \<and>
         sha256sum lib f2 block = sha256sum lib f1 block"
  using assms by (simp add: sha256sum_def read_chunks_all)

text \<open>
  Two files with the same three bytes, read in chunks of two bytes.
\<close>

theorem fingerprint_content_addressed_witness:
  "(0::nat) < 2 \<and>
   content (media ''a.wav'' (Bytes [1, 2, 3])) = Bytes [1, 2, 3] \<and>
   content \<lparr> below = [''night'', ''b.jpg''], is_file = True, content = Bytes [1, 2, 3],
             mtime = ''2024-01-01T00:00:00'' \<rparr> = Bytes [1, 2, 3] \<and>
   sha256sum sample_lib (media ''a.wav'' (Bytes [1, 2, 3])) 2 =
     Inr (sha256_hex sample_lib [1, 2, 3]) \<and>
   sha256sum sample_lib
     \<lparr> below = [''night'', ''b.jpg''], is_file = True, content = Bytes [1, 2, 3],
       mtime = ''2024-01-01T00:00:00'' \<rparr> 2 =
     sha256sum sample_lib (media ''a.wav'' (Bytes [1, 2, 3])) 2"
proof -
  have b: "(0::nat) < 2" by simp
  have c1: "content (media ''a.wav'' (Bytes [1, 2, 3])) = Bytes [1, 2, 3]"
    by (simp add: media_def)
  have c2: "content \<lparr> below = [''night'', ''b.jpg''], is_file = True,
      content = Bytes [1, 2, 3], mtime = ''2024-01-01T00:00:00'' \<rparr> = Bytes [1, 2, 3]"
    by simp
  from fingerprint_content_addressed [OF b c1 c2, of sample_lib] b c1 c2
  show ?thesis by blast
qed

subsection \<open>Classification by sub-folder\<close>

text \<open>
  Claim C10. For a fixed index, whether a regular file is listed as unmatched depends on
  its sub-folder only: two regular files of the same sub-folder are both unmatched or both
  matched, whatever their names, contents and the state of the run, since a file is
  unmatched exactly when the index has no entry at the key of the sub-folder.
\<close>

theorem classification_by_directory:
  assumes "is_file fp1" and "is_file fp2"
  shows "(loop_body lib look sub fp1 st1 = Inr (note_unmatched sub fp1 st1)) =
         (loop_body lib look sub fp2 st2 = Inr (note_unmatched sub fp2 st2)) \<and>
         (loop_body lib look sub fp1 st1 = Inr (note_unmatched sub fp1 st1)) =
         (look (file_key sub) = None)"
  using assms by (simp add: loop_body_unmatched_iff)

text \<open>
  Two files of \<^verbatim>\<open>bat_01\<close>, which the manifest does not list, one of them unreadable: both
  are unmatched.
\<close>

theorem classification_by_directory_witness:
  "is_file (media ''x.wav'' (Bytes [7])) \<and>
   is_file (media ''y.jpg'' Unreadable) \<and>
   good_index (file_key ''bat_01'') = None \<and>
   loop_body sample_lib good_index ''bat_01'' (media ''x.wav'' (Bytes [7])) init_state =
     Inr (note_unmatched ''bat_01'' (media ''x.wav'' (Bytes [7])) init_state) \<and>
   loop_body sample_lib good_index ''bat_01'' (media ''y.jpg'' Unreadable) init_state =
     Inr (note_unmatched ''bat_01'' (media ''y.jpg'' Unreadable) init_state)"
proof -
  have f1: "is_file (media ''x.wav'' (Bytes [7]))" and f2: "is_file (media ''y.jpg'' Unreadable)"
    by (simp_all add: media_def)
  from classification_by_directory [OF f1 f2, of sample_lib good_index "''bat_01''"
      init_state init_state]
    classification_by_directory [OF f2 f1, of sample_lib good_index "''bat_01''"
      init_state init_state]
    f1 f2 good_index_bat
  show ?thesis by simp
qed

end
